theory Spec2Isabelle
  imports Main "HOL-Library.AList"
begin

section \<open>The build script of the web application (packages/webapp/scripts/build.js)\<close>

text \<open>
  The script reads its command line and the project's package.json, then either runs one
  production build or pre-bundles the dependencies and starts Rollup's watcher. Rollup, its
  plugins, yargs-parser, Node's path and require are libraries the script calls: the
  embedding keeps what the script hands to them (option objects, plugin lists, handlers)
  as data, follows what they do with the options the claims are about, and takes the rest
  of their answers as parameters.
\<close>

subsection \<open>JavaScript values and errors\<close>

text \<open>
  The values a field of a package.json or a property lookup yields here: \<open>undefined\<close>,
  a string, or some other truthy object (a function or object inherited from
  \<open>Object.prototype\<close>, a nested JSON object). The script treats every falsy value
  that is not a string (\<open>null\<close>, \<open>false\<close>, \<open>0\<close>) as it treats \<open>undefined\<close>, which
  stands for them.
\<close>

datatype jsval = Undefined | Str string | Obj

text \<open>JavaScript truthiness: \<open>undefined\<close> and the empty string are falsy.\<close>

fun truthy :: "jsval \<Rightarrow> bool" where
  "truthy Undefined = False"
| "truthy (Str s) = (s \<noteq> [])"
| "truthy Obj = True"

text \<open>\<open>a || b\<close> yields \<open>a\<close> when it is truthy and \<open>b\<close> otherwise.\<close>

definition js_or :: "jsval \<Rightarrow> jsval \<Rightarrow> jsval" where
  "js_or a b = (if truthy a then a else b)"

datatype js_error =
    TypeError
  | ModuleNotFound string
  | BuildError string

subsection \<open>Resolving the entry point of a dependency\<close>

text \<open>The three fields \<open>getEntryPointPath\<close> destructures from a dependency's package.json.\<close>

record package_json =
  main :: jsval
  module :: jsval
  type :: jsval

text \<open>
  \<open>const ManualMap = {}\<close>: an empty object literal. A lookup \<open>ManualMap[name]\<close> finds no
  own property, and answers from \<open>Object.prototype\<close> for the names defined there.
\<close>

definition object_prototype_keys :: "string list" where
  "object_prototype_keys =
     [''constructor'', ''__defineGetter__'', ''__defineSetter__'', ''hasOwnProperty'',
      ''__lookupGetter__'', ''__lookupSetter__'', ''isPrototypeOf'',
      ''propertyIsEnumerable'', ''toString'', ''valueOf'', ''__proto__'',
      ''toLocaleString'']"

definition ManualMap :: "string \<Rightarrow> jsval" where
  "ManualMap name = (if name \<in> set object_prototype_keys then Obj else Undefined)"

text \<open>
  The argument of \<open>root(...)\<close> in \<open>getEntryPointPath\<close>:
  \<open>type === 'module' ? main : module || ManualMap[name] || main\<close>.
  The conditional binds weaker than \<open>||\<close>.
\<close>

definition entryField :: "string \<Rightarrow> package_json \<Rightarrow> jsval" where
  "entryField name pkg =
     (if type pkg = Str ''module'' then main pkg
      else js_or (js_or (module pkg) (ManualMap name)) (main pkg))"

text \<open>
  The local \<open>root = (...args) => join(name, ...args)\<close>. Node's \<open>path.join\<close> throws a
  TypeError on an argument that is not a string; on strings it is the parameter \<open>pjoin\<close>.
\<close>

definition pkgRoot :: "(string \<Rightarrow> string \<Rightarrow> string) \<Rightarrow> string \<Rightarrow> jsval \<Rightarrow> js_error + string" where
  "pkgRoot pjoin name v = (case v of Str s \<Rightarrow> Inr (pjoin name s) | _ \<Rightarrow> Inl TypeError)"

text \<open>
  \<open>getEntryPointPath\<close>: \<open>require\<close> of the dependency's package.json, the choice of the
  field, \<open>require.resolve\<close> of the joined path. \<open>req\<close> and \<open>resolve\<close> stand for Node's
  \<open>require\<close> and \<open>require.resolve\<close>, which throw when nothing is found.
\<close>

definition getEntryPointPath ::
  "(string \<Rightarrow> string \<Rightarrow> string) \<Rightarrow> (string \<Rightarrow> js_error + package_json) \<Rightarrow>
   (string \<Rightarrow> js_error + string) \<Rightarrow> string \<Rightarrow> js_error + string" where
  "getEntryPointPath pjoin req resolve name =
     (case req (pjoin name ''package.json'') of
        Inl e \<Rightarrow> Inl e
      | Inr pkg \<Rightarrow>
          (case pkgRoot pjoin name (entryField name pkg) of
             Inl e \<Rightarrow> Inl e
           | Inr p \<Rightarrow> resolve p))"

subsection \<open>Command line\<close>

text \<open>
  \<open>process.argv.slice(2)\<close> as yargs-parser reads it: the boolean flags given, in
  command-line order, each under the name it was written with and with the value it sets
  (\<open>--dev\<close> sets \<open>dev\<close> to true, \<open>--no-ts\<close> sets \<open>ts\<close> to false). The embedding
  covers command lines of such flags; a name with a dot, which yargs-parser reads as a
  path into an object, is outside it.
\<close>

type_synonym argv = "(string \<times> bool) list"

text \<open>
  The option object: \<open>alias\<close> and \<open>default\<close>. To the aliases the script lists,
  yargs-parser adds for a key with an upper-case letter its hyphenated form, in which each
  upper-case letter after the first becomes a hyphen and the lower-case letter.
\<close>

definition aliases :: "string \<Rightarrow> string list" where
  "aliases key =
     (if key = ''DEV'' then [''dev'', ''watch'', ''d'', ''w'', ''D-e-v'']
      else if key = ''TS'' then [''typescript'', ''ts'', ''T-s'']
      else if key = ''VERBOSE'' then [''v'', ''verbose'', ''V-e-r-b-o-s-e'']
      else [])"

definition default_flag :: "string \<Rightarrow> bool" where
  "default_flag key = False"

text \<open>
  A key and its aliases share one value: the last setting given under any of the names,
  the default when none is given.
\<close>

definition yargs :: "argv \<Rightarrow> string \<Rightarrow> bool" where
  "yargs args key =
     (case filter (\<lambda>a. fst a \<in> set (key # aliases key)) args of
        [] \<Rightarrow> default_flag key
      | a # as \<Rightarrow> snd (last (a # as)))"

record config =
  DEV :: bool
  TS :: bool
  VERBOSE :: bool

definition parse_args :: "argv \<Rightarrow> config" where
  "parse_args args =
     \<lparr>DEV = yargs args ''DEV'', TS = yargs args ''TS'', VERBOSE = yargs args ''VERBOSE''\<rparr>"

text \<open>The value printed as "Typescript Mode": \<open>TS || !DEV\<close>.\<close>

definition typescriptMode :: "config \<Rightarrow> bool" where
  "typescriptMode cfg = (TS cfg \<or> \<not> DEV cfg)"

subsection \<open>Paths\<close>

text \<open>
  \<open>root = (...args) => path.resolve(__dirname, '..', ...args)\<close>, on the plain relative
  segments the script passes; \<open>pr\<close> is the project directory \<open>__dirname/..\<close>.
\<close>

definition root :: "string \<Rightarrow> string \<Rightarrow> string" where
  "root pr seg = pr @ ''/'' @ seg"

subsection \<open>Plugins and option objects\<close>

text \<open>Each plugin call of the script with the options it is given.\<close>

datatype plugin =
    clear "string list"
  | pluginCommonJS
  | pluginNodeResolve "string list option" bool
  | pluginTypescript string
  | pluginSucrase "string list"
  | pluginReplace "(string \<times> string) list"
  | pluginServe string nat string
  | pluginLiveReload string
  | pluginTerser

text \<open>
  A JavaScript object with string keys, in insertion order (package names are not array
  indices, which JavaScript would list first). \<open>Object.fromEntries\<close> adds the entries
  one by one; a key given again keeps its place and takes the new value.
\<close>

type_synonym 'v js_object = "(string \<times> 'v) list"

definition fromEntries :: "(string \<times> 'v) list \<Rightarrow> 'v js_object" where
  "fromEntries es = foldl (\<lambda>obj e. AList.update (fst e) (snd e) obj) [] es"

datatype rollup_input = SingleEntry string | NamedEntries "string js_object"

record input_options =
  input :: rollup_input
  ctx :: string
  plugins :: "plugin list"
  external :: "string list"

record output_options =
  dir :: string
  format :: string
  entryFileNames :: string
  sourcemap :: bool
  exports :: "string option"
  paths :: "string js_object"

definition sourceEntryPoint :: "string \<Rightarrow> string \<Rightarrow> string" where
  "sourceEntryPoint pr app_main = root pr app_main"

text \<open>\<open>productionBuild\<close>: plugins, input options, output options.\<close>

definition productionPlugins :: "string \<Rightarrow> plugin list" where
  "productionPlugins pr =
     [clear [root pr ''public/build''],
      pluginCommonJS,
      pluginNodeResolve (Some [''.mjs'', ''.js'', ''.json'', ''.node'', ''.ts'', ''.tsx'']) False,
      pluginTypescript (root pr ''tsconfig.json''),
      pluginReplace [(''process.env.NODE_ENV'', [CHR 0x22] @ ''production'' @ [CHR 0x22])],
      pluginTerser]"

definition productionInputOptions :: "string \<Rightarrow> string \<Rightarrow> input_options" where
  "productionInputOptions pr app_main =
     \<lparr>input = SingleEntry (sourceEntryPoint pr app_main), ctx = ''window'',
      plugins = productionPlugins pr, external = []\<rparr>"

definition productionOutputOptions :: "string \<Rightarrow> output_options" where
  "productionOutputOptions pr =
     \<lparr>dir = root pr ''public/build'', format = ''es'', entryFileNames = ''bundle.js'',
      sourcemap = True, exports = None, paths = []\<rparr>"

text \<open>\<open>createDependenciesBundle\<close>: plugins, input options over the resolved entries, output options.\<close>

definition dependenciesPlugins :: "string \<Rightarrow> plugin list" where
  "dependenciesPlugins pr =
     [clear [root pr ''public/build''],
      pluginCommonJS,
      pluginNodeResolve None False,
      pluginReplace [(''process.env.NODE_ENV'', [CHR 0x22] @ ''development'' @ [CHR 0x22])]]"

definition dependenciesInputOptions :: "string \<Rightarrow> (string \<times> string) list \<Rightarrow> input_options" where
  "dependenciesInputOptions pr entries =
     \<lparr>input = NamedEntries (fromEntries entries), ctx = ''window'',
      plugins = dependenciesPlugins pr, external = []\<rparr>"

definition dependenciesOutputOptions :: "string \<Rightarrow> output_options" where
  "dependenciesOutputOptions pr =
     \<lparr>dir = root pr ''public/build/dependencies'', format = ''es'',
      entryFileNames = ''[name].js'', sourcemap = True, exports = Some ''named'', paths = []\<rparr>"

text \<open>\<open>startWatchMode\<close>: plugins, input options, output options.\<close>

definition watchPlugins :: "string \<Rightarrow> config \<Rightarrow> plugin list" where
  "watchPlugins pr cfg =
     [pluginCommonJS,
      pluginNodeResolve (Some [''.mjs'', ''.js'', ''.json'', ''.node'', ''.ts'', ''.tsx'']) False,
      (if TS cfg then pluginTypescript (root pr ''tsconfig.json'')
       else pluginSucrase [''typescript'', ''jsx'']),
      pluginServe (root pr ''public'') 5000 ''/index.html'',
      pluginLiveReload (root pr ''public'')]"

definition watchInputOptions :: "string \<Rightarrow> string \<Rightarrow> string list \<Rightarrow> config \<Rightarrow> input_options" where
  "watchInputOptions pr app_main dependenciesArr cfg =
     \<lparr>input = SingleEntry (sourceEntryPoint pr app_main), ctx = ''window'',
      plugins = watchPlugins pr cfg, external = dependenciesArr\<rparr>"

text \<open>\<open>outputOptions.paths\<close>: each dependency name with \<open>./dependencies/${k}.js\<close>.\<close>

definition dependencyPaths :: "string list \<Rightarrow> string js_object" where
  "dependencyPaths dependenciesArr =
     fromEntries (map (\<lambda>k. (k, ''./dependencies/'' @ k @ ''.js'')) dependenciesArr)"

definition watchOutputOptions :: "string \<Rightarrow> string list \<Rightarrow> output_options" where
  "watchOutputOptions pr dependenciesArr =
     \<lparr>dir = root pr ''public/build'', format = ''es'', entryFileNames = ''bundle.js'',
      sourcemap = True, exports = None, paths = dependencyPaths dependenciesArr\<rparr>"

subsection \<open>What a Rollup pass writes\<close>

text \<open>
  What Rollup finds in the modules of one pass, as far as the script's options act on it:
  for each entry, by its name, the module ids that its modules import and the tokens of
  their code; and the names of the further files the pass emits beside the entry files
  (chunks split off for dynamic imports or for code that entries share, their source
  maps, files that plugins emit).
\<close>

record source =
  src_imports :: "string \<Rightarrow> string list"
  src_tokens :: "string \<Rightarrow> string list"
  src_further :: "string list"

text \<open>
  The content of a file: an entry file with the module ids bundled into it, the import
  targets left in it and the tokens of its code; a source map; a further file of a pass;
  a file that was there before.
\<close>

datatype content =
    Bundle "string list" "string list" "string list"
  | SourceMap
  | Emitted
  | Present

text \<open>
  The file system is the list of the files present, each a path with its content. A file
  is under a directory when its path continues the directory's path after a slash.
\<close>

type_synonym files = "(string \<times> content) list"

definition under :: "string \<Rightarrow> string \<Rightarrow> bool" where
  "under d f = (take (length d + 1) f = d @ ''/'')"

text \<open>
  rollup-plugin-clear removes its targets with everything under them when the plugin is
  created, that is when the script builds its list of plugins. It clears again during a
  build only under its option \<open>watch\<close>, which the script does not give.
\<close>

definition clearTargets :: "string list \<Rightarrow> files \<Rightarrow> files" where
  "clearTargets targets fs = filter (\<lambda>f. \<not> list_ex (\<lambda>t. under t (fst f)) targets) fs"

fun runClear :: "plugin list \<Rightarrow> files \<Rightarrow> files" where
  "runClear [] fs = fs"
| "runClear (clear targets # ps) fs = runClear ps (clearTargets targets fs)"
| "runClear (p # ps) fs = runClear ps fs"

text \<open>
  The name of an entry file: the pattern \<open>entryFileNames\<close> with the placeholder
  \<open>[name]\<close> replaced by the entry's name. A named entry has its key as name, a single
  input file its base name without the extension.
\<close>

fun fileName :: "string \<Rightarrow> string \<Rightarrow> string" where
  "fileName [] n = []"
| "fileName (c # cs) n =
     (if take 6 (c # cs) = ''[name]'' then n @ fileName (drop 6 (c # cs)) n
      else c # fileName cs n)"

definition basename :: "string \<Rightarrow> string" where
  "basename p = rev (takeWhile (\<lambda>c. c \<noteq> CHR ''/'') (rev p))"

definition stripExt :: "string \<Rightarrow> string" where
  "stripExt b =
     (if CHR ''.'' \<in> set b then rev (tl (dropWhile (\<lambda>c. c \<noteq> CHR ''.'') (rev b))) else b)"

fun entryNames :: "rollup_input \<Rightarrow> string list" where
  "entryNames (SingleEntry p) = [stripExt (basename p)]"
| "entryNames (NamedEntries obj) = map fst obj"

definition entryFile :: "output_options \<Rightarrow> string \<Rightarrow> string" where
  "entryFile out n = dir out @ ''/'' @ fileName (entryFileNames out) n"

text \<open>
  The replace plugin puts, for each key of \<open>values\<close>, the value in the place of every
  token that is the key. Of the transforms of a plugin list the embedding follows this one.
\<close>

definition replaceToken :: "(string \<times> string) list \<Rightarrow> string \<Rightarrow> string" where
  "replaceToken vs t = (case map_of vs t of Some v \<Rightarrow> v | None \<Rightarrow> t)"

fun transform :: "plugin list \<Rightarrow> string list \<Rightarrow> string list" where
  "transform [] ts = ts"
| "transform (pluginReplace vs # ps) ts = transform ps (map (replaceToken vs) ts)"
| "transform (p # ps) ts = transform ps ts"

text \<open>
  The entry file of the entry \<open>n\<close>. An imported module whose id is listed in \<open>external\<close>
  is not bundled: its import stays, with the path \<open>output.paths\<close> gives for the id as
  target, or the id itself when it gives none. Every other imported module is bundled in.
\<close>

definition bundleOf :: "input_options \<Rightarrow> output_options \<Rightarrow> source \<Rightarrow> string \<Rightarrow> content" where
  "bundleOf inp out src n =
     Bundle (filter (\<lambda>m. m \<notin> set (external inp)) (src_imports src n))
       (map (\<lambda>m. case map_of (paths out) m of Some p \<Rightarrow> p | None \<Rightarrow> m)
          (filter (\<lambda>m. m \<in> set (external inp)) (src_imports src n)))
       (transform (plugins inp) (src_tokens src n))"

text \<open>
  The files of a pass: one file per entry in \<open>dir\<close>, its source map beside it when
  \<open>sourcemap\<close> is set, and the further files. Rollup gives the files of one pass
  distinct names.
\<close>

definition outputFiles :: "input_options \<Rightarrow> output_options \<Rightarrow> source \<Rightarrow> files" where
  "outputFiles inp out src =
     concat (map (\<lambda>n. (entryFile out n, bundleOf inp out src n)
                       # (if sourcemap out then [(entryFile out n @ ''.map'', SourceMap)] else []))
               (entryNames (input inp)))
     @ map (\<lambda>c. (dir out @ ''/'' @ c, Emitted)) (src_further src)"

definition writeFiles :: "files \<Rightarrow> files \<Rightarrow> files" where
  "writeFiles new fs = filter (\<lambda>f. fst f \<notin> fst ` set new) fs @ new"

text \<open>
  \<open>rollup.rollup(inputOptions)\<close> followed by \<open>bundle.write(outputOptions)\<close>: the pass
  either fails with the error \<open>result\<close> and writes nothing, or writes its files.
\<close>

definition rollupWrite ::
  "input_options \<Rightarrow> output_options \<Rightarrow> js_error option \<Rightarrow> source \<Rightarrow> files
   \<Rightarrow> js_error option \<times> files" where
  "rollupWrite inp out result src fs =
     (case result of
        Some e \<Rightarrow> (Some e, fs)
      | None \<Rightarrow> (None, writeFiles (outputFiles inp out src) fs))"

subsection \<open>The process\<close>

text \<open>
  What the script reads from outside: the project directory, \<open>main\<close> and the keys of
  \<open>dependencies\<close> of ../package.json, the command line, Node's \<open>path.join\<close>,
  \<open>require\<close> and \<open>require.resolve\<close>, the result of the one
  \<open>rollup.rollup\<close>/\<open>bundle.write\<close> the invocation awaits with what Rollup finds in
  its modules, what Rollup finds in the modules of each build of the watcher (by the
  number of the build), and the files present at the start.
\<close>

record env =
  projectRoot :: string
  app_main :: string
  dependenciesArr :: "string list"
  args :: argv
  path_join :: "string \<Rightarrow> string \<Rightarrow> string"
  require :: "string \<Rightarrow> js_error + package_json"
  require_resolve :: "string \<Rightarrow> js_error + string"
  rollup_result :: "js_error option"
  rollup_source :: source
  watch_source :: "nat \<Rightarrow> source"
  files0 :: files

text \<open>
  What the script changes: the lines the script prints on the console (colours left out,
  \<open>console.time\<close> prints nothing; what the plugins print themselves is not followed),
  the files, the exit status once \<open>process.exit\<close> is called, and the options of the
  watcher once \<open>rollup.watch\<close> is called.
\<close>

datatype console_line = console_log string | console_error js_error | console_timeEnd string

record process =
  console :: "console_line list"
  files :: files
  exit_status :: "nat option"
  watcher :: "(input_options \<times> output_options) option"

definition say :: "console_line \<Rightarrow> process \<Rightarrow> process" where
  "say l p = p\<lparr>console := console p @ [l]\<rparr>"

definition verbose :: "config \<Rightarrow> string \<Rightarrow> process \<Rightarrow> process" where
  "verbose cfg s p = (if VERBOSE cfg then say (console_log s) p else p)"

definition show_bool :: "bool \<Rightarrow> string" where
  "show_bool b = (if b then ''true'' else ''false'')"

fun show_nat :: "nat \<Rightarrow> string" where
  "show_nat n =
     (if n < 10 then [char_of (48 + n)] else show_nat (n div 10) @ [char_of (48 + n mod 10)])"

declare show_nat.simps [simp del]

definition errorHandler :: "js_error \<Rightarrow> process \<Rightarrow> process" where
  "errorHandler err p = (say (console_error err) p)\<lparr>exit_status := Some 1\<rparr>"

text \<open>
  Building the array \<open>plugins\<close>: each plugin is created, and the clear plugin among them
  clears its targets then.
\<close>

definition makePlugins :: "plugin list \<Rightarrow> process \<Rightarrow> process" where
  "makePlugins ps p = p\<lparr>files := runClear ps (files p)\<rparr>"

definition productionBuild :: "env \<Rightarrow> config \<Rightarrow> process \<Rightarrow> js_error option \<times> process" where
  "productionBuild env cfg p =
     (let p1 = verbose cfg ''Started Production Build'' p;
          p2 = makePlugins (productionPlugins (projectRoot env)) p1;
          (r, fs) = rollupWrite (productionInputOptions (projectRoot env) (app_main env))
                      (productionOutputOptions (projectRoot env)) (rollup_result env)
                      (rollup_source env) (files p2);
          p3 = p2\<lparr>files := fs\<rparr>
      in case r of
           Some e \<Rightarrow> (Some e, p3)
         | None \<Rightarrow> (None, say (console_timeEnd ''Completed Production Build'') p3))"

text \<open>
  \<open>dependenciesArr.map((name) => [name, getEntryPointPath(name)])\<close>, with the line
  \<open>getEntryPointPath\<close> prints in verbose mode; the first error ends the loop.
\<close>

fun resolveEntries ::
  "env \<Rightarrow> config \<Rightarrow> string list \<Rightarrow> process \<Rightarrow> (js_error + (string \<times> string) list) \<times> process" where
  "resolveEntries env cfg [] p = (Inr [], p)"
| "resolveEntries env cfg (name # names) p =
     (case getEntryPointPath (path_join env) (require env) (require_resolve env) name of
        Inl e \<Rightarrow> (Inl e, p)
      | Inr path \<Rightarrow>
          (case resolveEntries env cfg names
                  (verbose cfg (''Using '' @ name @ '': '' @ path) p) of
             (Inl e, p') \<Rightarrow> (Inl e, p')
           | (Inr es, p') \<Rightarrow> (Inr ((name, path) # es), p')))"

text \<open>
  \<open>createDependenciesBundle\<close>: the plugins are built first, then the entry points are
  resolved, then the pass runs.
\<close>

definition createDependenciesBundle :: "env \<Rightarrow> config \<Rightarrow> process \<Rightarrow> js_error option \<times> process" where
  "createDependenciesBundle env cfg p =
     (case resolveEntries env cfg (dependenciesArr env)
             (makePlugins (dependenciesPlugins (projectRoot env)) p) of
        (Inl e, p1) \<Rightarrow> (Some e, p1)
      | (Inr entries, p1) \<Rightarrow>
          (let (r, fs) = rollupWrite (dependenciesInputOptions (projectRoot env) entries)
                           (dependenciesOutputOptions (projectRoot env)) (rollup_result env)
                           (rollup_source env) (files p1)
           in (r, p1\<lparr>files := fs\<rparr>)))"

text \<open>
  \<open>startWatchMode\<close> builds its plugins, hands the options to \<open>rollup.watch\<close> and
  registers the handler.
\<close>

definition startWatchMode :: "env \<Rightarrow> config \<Rightarrow> process \<Rightarrow> js_error option \<times> process" where
  "startWatchMode env cfg p =
     (None, (makePlugins (watchPlugins (projectRoot env) cfg) p)\<lparr>watcher :=
        Some (watchInputOptions (projectRoot env) (app_main env) (dependenciesArr env) cfg,
              watchOutputOptions (projectRoot env) (dependenciesArr env))\<rparr>)"

definition developmentBuild :: "env \<Rightarrow> config \<Rightarrow> process \<Rightarrow> js_error option \<times> process" where
  "developmentBuild env cfg p =
     (let p1 = verbose cfg ''Started Development Build'' p
      in case createDependenciesBundle env cfg p1 of
           (Some e, p2) \<Rightarrow> (Some e, p2)
         | (None, p2) \<Rightarrow>
             startWatchMode env cfg
               (verbose cfg (CHR 0x0A # ''Starting Watch Mode'')
                  (say (console_timeEnd ''Created Dependencies Bundle'') p2)))"

text \<open>
  The top level: clear the screen, print the configuration in verbose mode, run the build
  of the mode, and pass a rejection to \<open>errorHandler\<close>.
\<close>

definition configurationText :: "env \<Rightarrow> config \<Rightarrow> string" where
  "configurationText env cfg =
     ''Current Configuration:'' @ [CHR 0x0A] @ '' ''
     @ '' Development Mode - '' @ show_bool (DEV cfg) @ [CHR 0x0A] @ '' ''
     @ '' Typescript Mode - '' @ show_bool (typescriptMode cfg) @ [CHR 0x0A] @ '' ''
     @ '' Source Entry Point - '' @ sourceEntryPoint (projectRoot env) (app_main env)
     @ [CHR 0x0A]"

definition script :: "env \<Rightarrow> process" where
  "script env =
     (let cfg = parse_args (args env);
          p0 = \<lparr>console = [console_log [CHR 0x1B, CHR ''c'']], files = files0 env,
                exit_status = None, watcher = None\<rparr>;
          p1 = verbose cfg (configurationText env cfg) p0;
          (r, p2) = (if DEV cfg then developmentBuild env cfg p1
                     else productionBuild env cfg p1)
      in case r of None \<Rightarrow> p2 | Some e \<Rightarrow> errorHandler e p2)"

subsection \<open>The watcher\<close>

text \<open>The events of Rollup's watcher, and the handler \<open>watcher.on('event', ...)\<close>.\<close>

datatype event_code = START | BUNDLE_START | BUNDLE_END | END | ERROR

record event =
  code :: event_code
  duration :: nat
  failure :: "js_error option"

definition onEvent :: "event \<Rightarrow> process \<Rightarrow> process" where
  "onEvent ev p =
     (let p1 = (if code ev = BUNDLE_START
                then say (console_log (CHR 0x0A # ''Found Changes'')) p else p)
      in if code ev = BUNDLE_END
         then say (console_log (''Completed build: '' @ show_nat (duration ev) @ ''ms'')) p1
         else p1)"

text \<open>
  One build of the watcher, the first one or a rebuild after a change, with the options
  it was started with, over the modules as they are then. Rollup emits START and
  BUNDLE_START, runs the pass, and emits BUNDLE_END with the duration and END, or ERROR
  with the error. The outcome of the pass is given: the error, or the duration in
  milliseconds.
\<close>

definition rebuild :: "source \<Rightarrow> js_error + nat \<Rightarrow> process \<Rightarrow> process" where
  "rebuild src outcome p =
     (case watcher p of
        None \<Rightarrow> p
      | Some (inp, out) \<Rightarrow>
          (let p1 = onEvent \<lparr>code = START, duration = 0, failure = None\<rparr> p;
               p2 = onEvent \<lparr>code = BUNDLE_START, duration = 0, failure = None\<rparr> p1;
               (r, fs) = rollupWrite inp out
                           (case outcome of Inl e \<Rightarrow> Some e | Inr d \<Rightarrow> None) src (files p2);
               p3 = p2\<lparr>files := fs\<rparr>
           in case outcome of
                Inl e \<Rightarrow> onEvent \<lparr>code = ERROR, duration = 0, failure = Some e\<rparr> p3
              | Inr d \<Rightarrow>
                  onEvent \<lparr>code = END, duration = 0, failure = None\<rparr>
                    (onEvent \<lparr>code = BUNDLE_END, duration = d, failure = None\<rparr> p3)))"

text \<open>
  The builds of the watcher, one after the other and numbered from \<open>n\<close>, while the
  process has not exited.
\<close>

fun builds :: "(nat \<Rightarrow> source) \<Rightarrow> nat \<Rightarrow> (js_error + nat) list \<Rightarrow> process \<Rightarrow> process" where
  "builds src n [] p = p"
| "builds src n (outcome # outcomes) p = builds src (Suc n) outcomes (rebuild (src n) outcome p)"

definition watch :: "(nat \<Rightarrow> source) \<Rightarrow> (js_error + nat) list \<Rightarrow> process \<Rightarrow> process" where
  "watch src outcomes p = (if exit_status p = None then builds src 0 outcomes p else p)"

definition run :: "env \<Rightarrow> (js_error + nat) list \<Rightarrow> process" where
  "run env outcomes = watch (watch_source env) outcomes (script env)"

subsection \<open>A sample project\<close>

text \<open>
  The project of the specification's scenarios: entry point src/main.ts, dependencies
  lib-a and lib-b, both CommonJS packages with \<open>main\<close> a.js, started in development mode
  over an output directory that holds a file of an earlier build. The application imports
  both dependencies and a module of its own; its code and the code of the dependencies
  read process.env.NODE_ENV.
\<close>

definition sample_env :: env where
  "sample_env =
     \<lparr>projectRoot = ''/app'', app_main = ''src/main.ts'',
      dependenciesArr = [''lib-a'', ''lib-b''], args = [(''dev'', True)],
      path_join = (\<lambda>a b. a @ ''/'' @ b),
      require = (\<lambda>p. Inr \<lparr>main = Str ''a.js'', module = Undefined, type = Str ''commonjs''\<rparr>),
      require_resolve = (\<lambda>p. Inr (''/app/node_modules/'' @ p)),
      rollup_result = None,
      rollup_source = \<lparr>src_imports = (\<lambda>n. []),
                       src_tokens = (\<lambda>n. [''if'', ''process.env.NODE_ENV'']),
                       src_further = []\<rparr>,
      watch_source = (\<lambda>i. \<lparr>src_imports = (\<lambda>n. [''lib-a'', ''./util'', ''lib-b'']),
                             src_tokens = (\<lambda>n. [''if'', ''process.env.NODE_ENV'']),
                             src_further = []\<rparr>),
      files0 = [(''/app/public/index.html'', Present),
                (''/app/public/build/stale.js'', Present)]\<rparr>"

text \<open>
  The same project built in production mode, from an application whose entry imports a
  module dynamically, for which Rollup splits off a chunk.
\<close>

definition sample_production_env :: env where
  "sample_production_env =
     sample_env\<lparr>args := [],
       rollup_source := \<lparr>src_imports = (\<lambda>n. [''lib-a'', ''./util'', ''lib-b'']),
                          src_tokens = (\<lambda>n. [''if'', ''process.env.NODE_ENV'']),
                          src_further = [''other-4f2a91.js'', ''other-4f2a91.js.map'']\<rparr>\<rparr>"

section \<open>Properties\<close>

subsection \<open>Entry points of the dependencies\<close>

lemma getEntryPointPath_found:
  "req (pjoin name ''package.json'') = Inr pkg \<Longrightarrow>
   getEntryPointPath pjoin req resolve name =
     (case entryField name pkg of Str s \<Rightarrow> resolve (pjoin name s) | _ \<Rightarrow> Inl TypeError)"
  by (simp add: getEntryPointPath_def pkgRoot_def split: jsval.splits)

text \<open>
  Claim C1, as the code has it. For a dependency whose package.json is found,
  \<open>getEntryPointPath\<close> is a function of the metadata and picks, first match winning: the
  \<open>main\<close> field, when the package's \<open>type\<close> is "module" and \<open>main\<close> is a string; else,
  the type not being "module", the \<open>module\<close> field when it is a non-empty string; else,
  when the \<open>module\<close> field is absent or empty and the name of the dependency is not the
  name of a property of \<open>Object.prototype\<close> (the table of overrides is empty, and holds
  no override for such a name), the \<open>main\<close> field when it is a string. In each of these
  cases the result is what \<open>require.resolve\<close> answers for the path of the field picked
  under the package.
\<close>

theorem entry_point_resolution_order:
  assumes "req (pjoin name ''package.json'') = Inr pkg"
  shows "(type pkg = Str ''module'' \<and> main pkg = Str s \<longrightarrow>
            getEntryPointPath pjoin req resolve name = resolve (pjoin name s))
       \<and> (type pkg \<noteq> Str ''module'' \<and> module pkg = Str s \<and> s \<noteq> [] \<longrightarrow>
            getEntryPointPath pjoin req resolve name = resolve (pjoin name s))
       \<and> (type pkg \<noteq> Str ''module'' \<and> \<not> truthy (module pkg) \<and>
            name \<notin> set object_prototype_keys \<and> main pkg = Str s \<longrightarrow>
            getEntryPointPath pjoin req resolve name = resolve (pjoin name s))"
  using assms
  by (simp add: getEntryPointPath_found entryField_def js_or_def ManualMap_def)

text \<open>
  The three rules at the metadata of the specification's examples: a package of type
  "module" with \<open>main\<close> a.js and \<open>module\<close> b.js resolves to a.js, the same fields without
  a type to b.js, and \<open>main\<close> a.js with type "commonjs" to a.js.
\<close>

theorem entry_point_resolution_order_witness:
  "getEntryPointPath (\<lambda>a b. a @ ''/'' @ b)
      (\<lambda>p. Inr \<lparr>main = Str ''a.js'', module = Str ''b.js'', type = Str ''module''\<rparr>)
      Inr ''lib-a'' = Inr ''lib-a/a.js''
   \<and> getEntryPointPath (\<lambda>a b. a @ ''/'' @ b)
      (\<lambda>p. Inr \<lparr>main = Str ''a.js'', module = Str ''b.js'', type = Undefined\<rparr>)
      Inr ''lib-a'' = Inr ''lib-a/b.js''
   \<and> getEntryPointPath (\<lambda>a b. a @ ''/'' @ b)
      (\<lambda>p. Inr \<lparr>main = Str ''a.js'', module = Undefined, type = Str ''commonjs''\<rparr>)
      Inr ''lib-a'' = Inr ''lib-a/a.js''"
  using entry_point_resolution_order [where pjoin = "\<lambda>a b. a @ ''/'' @ b"
      and req = "\<lambda>p. Inr \<lparr>main = Str ''a.js'', module = Str ''b.js'', type = Str ''module''\<rparr>"
      and resolve = Inr and name = "''lib-a''" and s = "''a.js''"
      and pkg = "\<lparr>main = Str ''a.js'', module = Str ''b.js'', type = Str ''module''\<rparr>"]
    entry_point_resolution_order [where pjoin = "\<lambda>a b. a @ ''/'' @ b"
      and req = "\<lambda>p. Inr \<lparr>main = Str ''a.js'', module = Str ''b.js'', type = Undefined\<rparr>"
      and resolve = Inr and name = "''lib-a''" and s = "''b.js''"
      and pkg = "\<lparr>main = Str ''a.js'', module = Str ''b.js'', type = Undefined\<rparr>"]
    entry_point_resolution_order [where pjoin = "\<lambda>a b. a @ ''/'' @ b"
      and req = "\<lambda>p. Inr \<lparr>main = Str ''a.js'', module = Undefined, type = Str ''commonjs''\<rparr>"
      and resolve = Inr and name = "''lib-a''" and s = "''a.js''"
      and pkg = "\<lparr>main = Str ''a.js'', module = Undefined, type = Str ''commonjs''\<rparr>"]
  by (simp add: object_prototype_keys_def)

text \<open>
  Claim C1 as stated names b.js as the entry of the package with \<open>main\<close> a.js,
  \<open>module\<close> b.js and type "module". The code picks a.js there.
\<close>

theorem entry_point_module_package_counterexample:
  "entryField ''lib-a'' \<lparr>main = Str ''a.js'', module = Str ''b.js'', type = Str ''module''\<rparr>
     = Str ''a.js''
   \<and> entryField ''lib-a'' \<lparr>main = Str ''a.js'', module = Str ''b.js'', type = Str ''module''\<rparr>
     \<noteq> Str ''b.js''"
  by (simp add: entryField_def)

text \<open>
  Outside these cases the value picked is not a string and \<open>path.join\<close> throws: a
  package of type "module" that declares only the \<open>module\<close> field, a \<open>module\<close> field that
  is an object, a dependency named like a property of \<open>Object.prototype\<close> without a
  \<open>module\<close> field.
\<close>

lemma getEntryPointPath_module_without_main:
  "req (pjoin name ''package.json'')
     = Inr \<lparr>main = Undefined, module = Str ''b.js'', type = Str ''module''\<rparr>
   \<Longrightarrow> getEntryPointPath pjoin req resolve name = Inl TypeError"
  by (simp add: getEntryPointPath_found entryField_def)

lemma getEntryPointPath_module_not_string:
  "req (pjoin name ''package.json'')
     = Inr \<lparr>main = Str ''a.js'', module = Obj, type = Str ''commonjs''\<rparr>
   \<Longrightarrow> getEntryPointPath pjoin req resolve name = Inl TypeError"
  by (simp add: getEntryPointPath_found entryField_def js_or_def)

lemma getEntryPointPath_prototype_name:
  "req (pjoin ''constructor'' ''package.json'')
     = Inr \<lparr>main = Str ''a.js'', module = Undefined, type = Str ''commonjs''\<rparr>
   \<Longrightarrow> getEntryPointPath pjoin req resolve ''constructor'' = Inl TypeError"
  by (simp add: getEntryPointPath_found entryField_def js_or_def ManualMap_def
        object_prototype_keys_def)

subsection \<open>The type-check setting\<close>







subsection \<open>The table of served paths\<close>

lemma map_of_foldl_update_keyed:
  "map_of (foldl (\<lambda>obj e. AList.update (fst e) (snd e) obj) acc (map (\<lambda>k. (k, f k)) ks)) k =
     (if k \<in> set ks then Some (f k) else map_of acc k)"
  by (induction ks arbitrary: acc) (simp_all add: update_conv')

lemma keys_foldl_update:
  "fst ` set (foldl (\<lambda>obj e. AList.update (fst e) (snd e) obj) acc es) =
     fst ` set acc \<union> fst ` set es"
proof (induction es arbitrary: acc)
  case Nil
  show ?case by simp
next
  case (Cons e es)
  have "fst ` set (AList.update (fst e) (snd e) acc) = insert (fst e) (fst ` set acc)"
    using dom_update [of "fst e" "snd e" acc] by (simp add: dom_map_of_conv_image_fst)
  with Cons show ?case by auto
qed

lemma keys_fromEntries: "set (map fst (fromEntries es)) = set (map fst es)"
  by (simp add: fromEntries_def keys_foldl_update)

lemma map_of_dependencyPaths:
  "map_of (dependencyPaths deps) k =
     (if k \<in> set deps then Some (''./dependencies/'' @ k @ ''.js'') else None)"
  by (simp add: dependencyPaths_def fromEntries_def map_of_foldl_update_keyed)

text \<open>
  Claim C5. The table \<open>outputOptions.paths\<close> is a function of the dependency names alone.
  It takes each name to the path dependencies/<name>.js, written relative to the bundle
  with a leading \<open>./\<close>, and has no other key; two names with the same path are the same
  name; with no dependency the table is empty.
\<close>

theorem dependency_paths_injective:
  "map_of (dependencyPaths deps) k =
     (if k \<in> set deps then Some (''./'' @ (''dependencies/'' @ k @ ''.js'')) else None)
   \<and> (map_of (dependencyPaths deps) a = Some p \<and> map_of (dependencyPaths deps) b = Some p
        \<longrightarrow> a = b)
   \<and> dom (map_of (dependencyPaths deps)) = set deps
   \<and> dependencyPaths [] = []
   \<and> paths (watchOutputOptions pr deps) = dependencyPaths deps"
proof -
  have inj: "map_of (dependencyPaths deps) a = Some p \<and> map_of (dependencyPaths deps) b = Some p
        \<longrightarrow> a = b"
    by (auto simp add: map_of_dependencyPaths split: if_splits)
  have keys: "dom (map_of (dependencyPaths deps)) = set deps"
    by (auto simp add: dom_def map_of_dependencyPaths)
  have empty: "dependencyPaths [] = ([] :: string js_object)"
    by (simp add: dependencyPaths_def fromEntries_def)
  have used: "paths (watchOutputOptions pr deps) = dependencyPaths deps"
    by (simp add: watchOutputOptions_def)
  from inj keys empty used show ?thesis
    by (simp add: map_of_dependencyPaths)
qed

text \<open>The table of lib-a and lib-b: their two paths, and no entry for another name.\<close>

theorem dependency_paths_injective_witness:
  "map_of (dependencyPaths [''lib-a'', ''lib-b'']) ''lib-a'' = Some ''./dependencies/lib-a.js''
   \<and> map_of (dependencyPaths [''lib-a'', ''lib-b'']) ''lib-b'' = Some ''./dependencies/lib-b.js''
   \<and> map_of (dependencyPaths [''lib-a'', ''lib-b'']) ''lib-c'' = None
   \<and> dom (map_of (dependencyPaths [''lib-a'', ''lib-b''])) = {''lib-a'', ''lib-b''}"
  using dependency_paths_injective [of "[''lib-a'', ''lib-b'']" "''lib-a''" "''lib-a''"
          "''./dependencies/lib-a.js''" "''lib-a''"]
        dependency_paths_injective [of "[''lib-a'', ''lib-b'']" "''lib-b''"]
        dependency_paths_injective [of "[''lib-a'', ''lib-b'']" "''lib-c''"]
  by simp

subsection \<open>Files and passes\<close>

lemma under_extend [simp]: "under d (d @ CHR ''/'' # x)"
  by (simp add: under_def)

lemma under_prefix: "under (d @ CHR ''/'' # x) f \<Longrightarrow> under d f"
proof -
  assume "under (d @ CHR ''/'' # x) f"
  then have h: "take (length d + 1 + length x + 1) f = d @ CHR ''/'' # x @ ''/''"
    by (simp add: under_def add.commute add.left_commute)
  have "take (length d + 1) f = take (length d + 1) (take (length d + 1 + length x + 1) f)"
    by (simp add: min_def)
  also have "\<dots> = d @ ''/''"
    by (subst h) simp
  finally show ?thesis by (simp add: under_def)
qed

lemma under_dependencies_slash:
  "under (d @ ''/dependencies'') (d @ CHR ''/'' # c) \<Longrightarrow> CHR ''/'' \<in> set c"
proof -
  assume "under (d @ ''/dependencies'') (d @ CHR ''/'' # c)"
  then have "take 13 c = ''dependencies/''"
    by (simp add: under_def)
  then have "CHR ''/'' \<in> set (take 13 c)"
    by simp
  then show ?thesis
    by (rule in_set_takeD)
qed

lemma fileName_name_js [simp]: "fileName ''[name].js'' n = n @ ''.js''"
  by simp

lemma fileName_bundle_js [simp]: "fileName ''bundle.js'' n = ''bundle.js''"
  by simp

lemma paths_clearTargets [simp]: "filter (under d) (map fst (clearTargets [d] fs)) = []"
  by (simp add: clearTargets_def filter_empty_conv)

lemma paths_sub_clearTargets [simp]:
  "filter (under (d @ CHR ''/'' # x)) (map fst (clearTargets [d] fs)) = []"
  by (auto simp add: clearTargets_def filter_empty_conv dest: under_prefix)

lemma runClear_productionPlugins [simp]:
  "runClear (productionPlugins pr) fs = clearTargets [root pr ''public/build''] fs"
  by (simp add: productionPlugins_def)

lemma runClear_dependenciesPlugins [simp]:
  "runClear (dependenciesPlugins pr) fs = clearTargets [root pr ''public/build''] fs"
  by (simp add: dependenciesPlugins_def)

lemma runClear_watchPlugins [simp]: "runClear (watchPlugins pr cfg) fs = fs"
  by (simp add: watchPlugins_def)

lemma transform_watchPlugins [simp]: "transform (watchPlugins pr cfg) ts = ts"
  by (simp add: watchPlugins_def)

lemma transform_dependenciesPlugins [simp]:
  "transform (dependenciesPlugins pr) ts =
     map (replaceToken [(''process.env.NODE_ENV'', [CHR 0x22] @ ''development'' @ [CHR 0x22])]) ts"
  by (simp add: dependenciesPlugins_def)

lemma transform_productionPlugins [simp]:
  "transform (productionPlugins pr) ts =
     map (replaceToken [(''process.env.NODE_ENV'', [CHR 0x22] @ ''production'' @ [CHR 0x22])]) ts"
  by (simp add: productionPlugins_def)

lemma rollupWrite_fst [simp]: "fst (rollupWrite inp out r src fs) = r"
  by (simp add: rollupWrite_def split: option.splits)

lemma rollupWrite_snd:
  "snd (rollupWrite inp out r src fs) =
     (case r of None \<Rightarrow> writeFiles (outputFiles inp out src) fs | Some e \<Rightarrow> fs)"
  by (simp add: rollupWrite_def split: option.splits)

lemma paths_writeFiles:
  "map fst (writeFiles new fs) = filter (\<lambda>f. f \<notin> fst ` set new) (map fst fs) @ map fst new"
  by (simp add: writeFiles_def filter_map comp_def)

lemma paths_under_writeFiles:
  "filter (under d) (map fst fs) = [] \<Longrightarrow>
   filter (under d) (map fst (writeFiles new fs)) = filter (under d) (map fst new)"
  by (simp add: paths_writeFiles filter_empty_conv)

lemma keys_writeFiles [simp]: "fst ` set (writeFiles new fs) = fst ` set new \<union> fst ` set fs"
  by (auto simp add: writeFiles_def)

lemma map_of_filter_keys:
  "map_of (filter (\<lambda>f. P (fst f)) fs) k = (if P k then map_of fs k else None)"
  by (induction fs) auto

lemma map_of_writeFiles:
  "map_of (writeFiles new fs) k =
     (case map_of new k of Some c \<Rightarrow> Some c | None \<Rightarrow> map_of fs k)"
proof (cases "map_of new k")
  case None
  then have "k \<notin> fst ` set new"
    by (simp add: map_of_eq_None_iff)
  with None show ?thesis
    using map_of_filter_keys [of "\<lambda>k. k \<notin> fst ` set new" fs k]
    by (simp add: writeFiles_def map_add_def split: option.splits)
next
  case (Some c)
  then have "k \<in> fst ` set new"
    by (metis map_of_eq_None_iff option.distinct(1))
  with Some show ?thesis
    using map_of_filter_keys [of "\<lambda>k. k \<notin> fst ` set new" fs k]
    by (simp add: writeFiles_def map_add_def split: option.splits)
qed

lemma paths_outputFiles_production:
  "map fst (outputFiles (productionInputOptions pr m) (productionOutputOptions pr) src) =
     [root pr ''public/build'' @ ''/bundle.js'', root pr ''public/build'' @ ''/bundle.js.map'']
     @ map (\<lambda>c. root pr ''public/build'' @ ''/'' @ c) (src_further src)"
  by (simp add: outputFiles_def entryFile_def productionInputOptions_def
        productionOutputOptions_def comp_def)

lemma paths_outputFiles_watch:
  "map fst (outputFiles (watchInputOptions pr m deps cfg) (watchOutputOptions pr deps) src) =
     [root pr ''public/build'' @ ''/bundle.js'', root pr ''public/build'' @ ''/bundle.js.map'']
     @ map (\<lambda>c. root pr ''public/build'' @ ''/'' @ c) (src_further src)"
  by (simp add: outputFiles_def entryFile_def watchInputOptions_def
        watchOutputOptions_def comp_def)

lemma paths_outputFiles_dependencies:
  "map fst (outputFiles (dependenciesInputOptions pr es) (dependenciesOutputOptions pr) src) =
     concat (map (\<lambda>n. [root pr ''public/build'' @ ''/dependencies/'' @ n @ ''.js'',
                        root pr ''public/build'' @ ''/dependencies/'' @ n @ ''.js.map''])
               (map fst (fromEntries es)))
     @ map (\<lambda>c. root pr ''public/build'' @ ''/dependencies/'' @ c) (src_further src)"
  by (simp add: outputFiles_def entryFile_def dependenciesInputOptions_def
        dependenciesOutputOptions_def root_def comp_def map_concat)

lemma under_outputFiles_dependencies:
  "filter (under (root pr ''public/build''))
     (map fst (outputFiles (dependenciesInputOptions pr es) (dependenciesOutputOptions pr) src))
   = map fst (outputFiles (dependenciesInputOptions pr es) (dependenciesOutputOptions pr) src)"
  unfolding paths_outputFiles_dependencies
  by (rule filter_True) auto

lemma under_outputFiles_production:
  "filter (under (root pr ''public/build''))
     (map fst (outputFiles (productionInputOptions pr m) (productionOutputOptions pr) src))
   = map fst (outputFiles (productionInputOptions pr m) (productionOutputOptions pr) src)"
  unfolding paths_outputFiles_production
  by (rule filter_True) auto

lemma js_map_neq_js: "n @ ''.js.map'' \<noteq> k @ ''.js''"
proof
  assume "n @ ''.js.map'' = k @ ''.js''"
  then have "last (n @ ''.js.map'') = last (k @ ''.js'')"
    by simp
  then show False
    by simp
qed

lemma map_of_entry_files:
  "k \<in> set names \<Longrightarrow>
   map_of (concat (map (\<lambda>n. [(d @ n @ ''.js'', b n), (d @ n @ ''.js.map'', SourceMap)]) names)
           @ rest) (d @ k @ ''.js'') = Some (b k)"
  by (induction names) (auto simp add: js_map_neq_js)

lemma bundleOf_dependencies:
  "bundleOf (dependenciesInputOptions pr es) (dependenciesOutputOptions pr) src n =
     Bundle (src_imports src n) []
       (map (replaceToken [(''process.env.NODE_ENV'', [CHR 0x22] @ ''development'' @ [CHR 0x22])])
          (src_tokens src n))"
  by (simp add: bundleOf_def dependenciesInputOptions_def)

lemma bundleOf_production:
  "bundleOf (productionInputOptions pr m) (productionOutputOptions pr) src n =
     Bundle (src_imports src n) []
       (map (replaceToken [(''process.env.NODE_ENV'', [CHR 0x22] @ ''production'' @ [CHR 0x22])])
          (src_tokens src n))"
  by (simp add: bundleOf_def productionInputOptions_def)

lemma bundleOf_watch:
  "bundleOf (watchInputOptions pr m deps cfg) (watchOutputOptions pr deps) src n =
     Bundle (filter (\<lambda>i. i \<notin> set deps) (src_imports src n))
       (map (\<lambda>i. ''./dependencies/'' @ i @ ''.js'') (filter (\<lambda>i. i \<in> set deps) (src_imports src n)))
       (src_tokens src n)"
proof -
  have "map (\<lambda>i. case map_of (dependencyPaths deps) i of Some p \<Rightarrow> p | None \<Rightarrow> i)
          (filter (\<lambda>i. i \<in> set deps) (src_imports src n))
      = map (\<lambda>i. ''./dependencies/'' @ i @ ''.js'') (filter (\<lambda>i. i \<in> set deps) (src_imports src n))"
    by (rule map_cong) (simp_all add: map_of_dependencyPaths)
  then show ?thesis
    by (simp add: bundleOf_def watchInputOptions_def watchOutputOptions_def)
qed

lemma map_of_outputFiles_dependencies:
  assumes "k \<in> set (map fst (fromEntries es))"
  shows "map_of (outputFiles (dependenciesInputOptions pr es) (dependenciesOutputOptions pr) src)
           (root pr ''public/build'' @ ''/dependencies/'' @ k @ ''.js'')
         = Some (bundleOf (dependenciesInputOptions pr es) (dependenciesOutputOptions pr) src k)"
proof -
  have "outputFiles (dependenciesInputOptions pr es) (dependenciesOutputOptions pr) src =
      concat (map (\<lambda>n. [((root pr ''public/build'' @ ''/dependencies/'') @ n @ ''.js'',
                          bundleOf (dependenciesInputOptions pr es) (dependenciesOutputOptions pr) src n),
                         ((root pr ''public/build'' @ ''/dependencies/'') @ n @ ''.js.map'', SourceMap)])
                (map fst (fromEntries es)))
      @ map (\<lambda>c. (dir (dependenciesOutputOptions pr) @ ''/'' @ c, Emitted)) (src_further src)"
    by (simp add: outputFiles_def entryFile_def dependenciesInputOptions_def
          dependenciesOutputOptions_def root_def)
  then show ?thesis
    using map_of_entry_files [OF assms, of "root pr ''public/build'' @ ''/dependencies/''"
        "bundleOf (dependenciesInputOptions pr es) (dependenciesOutputOptions pr) src"]
    by simp
qed

lemma map_of_outputFiles_production:
  "map_of (outputFiles (productionInputOptions pr m) (productionOutputOptions pr) src)
     (root pr ''public/build'' @ ''/bundle.js'')
   = Some (bundleOf (productionInputOptions pr m) (productionOutputOptions pr) src
             (stripExt (basename (sourceEntryPoint pr m))))"
  by (simp add: outputFiles_def entryFile_def productionInputOptions_def
        productionOutputOptions_def)

lemma map_of_outputFiles_watch:
  "map_of (outputFiles (watchInputOptions pr m deps cfg) (watchOutputOptions pr deps) src)
     (root pr ''public/build'' @ ''/bundle.js'')
   = Some (bundleOf (watchInputOptions pr m deps cfg) (watchOutputOptions pr deps) src
             (stripExt (basename (sourceEntryPoint pr m))))"
  by (simp add: outputFiles_def entryFile_def watchInputOptions_def watchOutputOptions_def)

subsection \<open>What the steps of the script leave unchanged\<close>

lemma say_fields [simp]:
  "files (say l p) = files p" "exit_status (say l p) = exit_status p"
  "watcher (say l p) = watcher p" "console (say l p) = console p @ [l]"
  by (simp_all add: say_def)

lemma verbose_fields [simp]:
  "files (verbose cfg s p) = files p" "exit_status (verbose cfg s p) = exit_status p"
  "watcher (verbose cfg s p) = watcher p"
  by (simp_all add: verbose_def)

lemma makePlugins_fields [simp]:
  "files (makePlugins ps p) = runClear ps (files p)"
  "exit_status (makePlugins ps p) = exit_status p"
  "watcher (makePlugins ps p) = watcher p" "console (makePlugins ps p) = console p"
  by (simp_all add: makePlugins_def)

lemma onEvent_fields [simp]:
  "files (onEvent ev p) = files p" "exit_status (onEvent ev p) = exit_status p"
  "watcher (onEvent ev p) = watcher p"
  by (simp_all add: onEvent_def Let_def)

lemma errorHandler_fields [simp]:
  "files (errorHandler e p) = files p" "exit_status (errorHandler e p) = Some 1"
  "watcher (errorHandler e p) = watcher p" "console (errorHandler e p) = console p @ [console_error e]"
  by (simp_all add: errorHandler_def)

lemma resolveEntries_frame:
  "resolveEntries env cfg names p = (r, p') \<Longrightarrow>
   files p' = files p \<and> exit_status p' = exit_status p \<and> watcher p' = watcher p"
proof (induction names arbitrary: p r p')
  case Nil
  then show ?case by simp
next
  case (Cons name names)
  show ?case
  proof (cases "getEntryPointPath (path_join env) (require env) (require_resolve env) name")
    case (Inl e)
    with Cons.prems show ?thesis by simp
  next
    case (Inr path)
    obtain r1 p1 where rec:
      "resolveEntries env cfg names (verbose cfg (''Using '' @ name @ '': '' @ path) p) = (r1, p1)"
      by (cases "resolveEntries env cfg names (verbose cfg (''Using '' @ name @ '': '' @ path) p)")
    from Cons.IH [OF rec] have "files p1 = files p \<and> exit_status p1 = exit_status p
        \<and> watcher p1 = watcher p" by simp
    moreover from Cons.prems Inr rec have "p' = p1" by (cases r1) auto
    ultimately show ?thesis by simp
  qed
qed

lemma resolveEntries_keys:
  "resolveEntries env cfg names p = (Inr es, p') \<Longrightarrow> map fst es = names"
proof (induction names arbitrary: p es p')
  case Nil
  then show ?case by simp
next
  case (Cons name names)
  show ?case
  proof (cases "getEntryPointPath (path_join env) (require env) (require_resolve env) name")
    case (Inl e)
    with Cons.prems show ?thesis by simp
  next
    case (Inr path)
    obtain r1 p1 where rec:
      "resolveEntries env cfg names (verbose cfg (''Using '' @ name @ '': '' @ path) p) = (r1, p1)"
      by (cases "resolveEntries env cfg names (verbose cfg (''Using '' @ name @ '': '' @ path) p)")
    show ?thesis
    proof (cases r1)
      case (Inl e)
      with Cons.prems Inr rec show ?thesis by simp
    next
      case (Inr es1)
      with rec Cons.IH have "map fst es1 = names" by blast
      moreover from Cons.prems \<open>getEntryPointPath _ _ _ name = Inr path\<close> rec Inr
      have "es = (name, path) # es1" by simp
      ultimately show ?thesis by simp
    qed
  qed
qed

lemma resolveEntries_fst:
  "fst (resolveEntries env cfg names p) = fst (resolveEntries env cfg names q)"
proof (induction names arbitrary: p q)
  case Nil
  show ?case by simp
next
  case (Cons name names)
  show ?case
  proof (cases "getEntryPointPath (path_join env) (require env) (require_resolve env) name")
    case (Inl e)
    then show ?thesis by simp
  next
    case (Inr path)
    have "fst (resolveEntries env cfg names (verbose cfg (''Using '' @ name @ '': '' @ path) p))
        = fst (resolveEntries env cfg names (verbose cfg (''Using '' @ name @ '': '' @ path) q))"
      by (rule Cons.IH)
    with Inr show ?thesis
      by (auto split: prod.splits sum.splits)
  qed
qed

lemma createDependenciesBundle_fst:
  "fst (createDependenciesBundle env cfg p) = fst (createDependenciesBundle env cfg q)"
  using resolveEntries_fst [of env cfg "dependenciesArr env"
      "makePlugins (dependenciesPlugins (projectRoot env)) p"
      "makePlugins (dependenciesPlugins (projectRoot env)) q"]
  by (auto simp add: createDependenciesBundle_def case_prod_beta split: prod.splits sum.splits)

text \<open>The pre-bundle, step by step.\<close>

lemma createDependenciesBundle_cases:
  obtains (unresolved) e p1 where
      "resolveEntries env cfg (dependenciesArr env)
         (makePlugins (dependenciesPlugins (projectRoot env)) p) = (Inl e, p1)"
      "createDependenciesBundle env cfg p = (Some e, p1)"
      "files p1 = clearTargets [root (projectRoot env) ''public/build''] (files p)"
      "watcher p1 = watcher p" "exit_status p1 = exit_status p"
    | (resolved) es p1 where
      "resolveEntries env cfg (dependenciesArr env)
         (makePlugins (dependenciesPlugins (projectRoot env)) p) = (Inr es, p1)"
      "map fst es = dependenciesArr env"
      "createDependenciesBundle env cfg p =
         (rollup_result env,
          p1\<lparr>files := snd (rollupWrite (dependenciesInputOptions (projectRoot env) es)
                          (dependenciesOutputOptions (projectRoot env)) (rollup_result env)
                          (rollup_source env)
                          (clearTargets [root (projectRoot env) ''public/build''] (files p)))\<rparr>)"
      "watcher p1 = watcher p" "exit_status p1 = exit_status p"
proof -
  obtain r p1 where re: "resolveEntries env cfg (dependenciesArr env)
         (makePlugins (dependenciesPlugins (projectRoot env)) p) = (r, p1)"
    by (cases "resolveEntries env cfg (dependenciesArr env)
         (makePlugins (dependenciesPlugins (projectRoot env)) p)")
  from resolveEntries_frame [OF re]
  have fr: "files p1 = clearTargets [root (projectRoot env) ''public/build''] (files p)"
    "watcher p1 = watcher p" "exit_status p1 = exit_status p"
    by simp_all
  show thesis
  proof (cases r)
    case (Inl e)
    with re fr show thesis
      by (intro unresolved [of e p1]) (simp_all add: createDependenciesBundle_def)
  next
    case (Inr es)
    with re have "map fst es = dependenciesArr env"
      by (simp add: resolveEntries_keys)
    with Inr re fr show thesis
      by (intro resolved [of es p1])
        (simp_all add: createDependenciesBundle_def case_prod_beta prod_eq_iff)
  qed
qed


subsection \<open>The outcome of the script\<close>

lemma script_production:
  assumes "\<not> DEV (parse_args (args env))"
  shows "files (script env) =
           snd (rollupWrite (productionInputOptions (projectRoot env) (app_main env))
                  (productionOutputOptions (projectRoot env)) (rollup_result env)
                  (rollup_source env)
                  (clearTargets [root (projectRoot env) ''public/build''] (files0 env)))"
    and "watcher (script env) = None"
    and "exit_status (script env) = (case rollup_result env of None \<Rightarrow> None | Some e \<Rightarrow> Some 1)"
    and "rollup_result env = Some e \<Longrightarrow> last (console (script env)) = console_error e"
  using assms
  by (simp_all add: script_def productionBuild_def Let_def case_prod_beta split: option.splits)

lemma script_development_failure:
  assumes "DEV (parse_args (args env))"
    and "fst (createDependenciesBundle env (parse_args (args env)) p) = Some e"
  shows "exit_status (script env) = Some 1" and "watcher (script env) = None"
    and "last (console (script env)) = console_error e"
proof -
  let ?cfg = "parse_args (args env)"
  let ?p0 = "\<lparr>console = [console_log [CHR 0x1B, CHR ''c'']], files = files0 env,
                exit_status = None, watcher = None\<rparr>"
  let ?p1 = "verbose ?cfg ''Started Development Build'' (verbose ?cfg (configurationText env ?cfg) ?p0)"
  obtain r p2 where cdb: "createDependenciesBundle env ?cfg ?p1 = (r, p2)"
    by (cases "createDependenciesBundle env ?cfg ?p1")
  have "r = Some e"
    using assms(2) createDependenciesBundle_fst [of env ?cfg p ?p1] cdb by simp
  with cdb have dev: "developmentBuild env ?cfg (verbose ?cfg (configurationText env ?cfg) ?p0)
      = (Some e, p2)"
    by (simp add: developmentBuild_def Let_def)
  have "watcher p2 = None"
    using cdb by (cases rule: createDependenciesBundle_cases [of env ?cfg ?p1]) auto
  with dev assms(1) show "exit_status (script env) = Some 1" and "watcher (script env) = None"
    and "last (console (script env)) = console_error e"
    by (simp_all add: script_def Let_def)
qed

lemma script_development_success:
  assumes "DEV (parse_args (args env))" and "exit_status (script env) = None"
  obtains es where "map fst es = dependenciesArr env"
    and "files (script env) =
           writeFiles (outputFiles (dependenciesInputOptions (projectRoot env) es)
                         (dependenciesOutputOptions (projectRoot env)) (rollup_source env))
             (clearTargets [root (projectRoot env) ''public/build''] (files0 env))"
    and "watcher (script env) =
           Some (watchInputOptions (projectRoot env) (app_main env) (dependenciesArr env)
                   (parse_args (args env)),
                 watchOutputOptions (projectRoot env) (dependenciesArr env))"
proof -
  let ?cfg = "parse_args (args env)"
  let ?p0 = "\<lparr>console = [console_log [CHR 0x1B, CHR ''c'']], files = files0 env,
                exit_status = None, watcher = None\<rparr>"
  let ?p1 = "verbose ?cfg ''Started Development Build'' (verbose ?cfg (configurationText env ?cfg) ?p0)"
  show thesis
  proof (cases rule: createDependenciesBundle_cases [of env ?cfg ?p1])
    case (unresolved e p1)
    then have "fst (createDependenciesBundle env ?cfg ?p1) = Some e" by simp
    from script_development_failure(1) [OF assms(1) this] assms(2) show thesis by simp
  next
    case (resolved es p1)
    have res: "rollup_result env = None"
    proof (cases "rollup_result env")
      case None
      then show ?thesis .
    next
      case (Some e)
      with resolved have "fst (createDependenciesBundle env ?cfg ?p1) = Some e" by simp
      from script_development_failure(1) [OF assms(1) this] assms(2) show ?thesis by simp
    qed
    let ?fs = "writeFiles (outputFiles (dependenciesInputOptions (projectRoot env) es)
                         (dependenciesOutputOptions (projectRoot env)) (rollup_source env))
             (clearTargets [root (projectRoot env) ''public/build''] (files0 env))"
    from resolved res have cdb: "createDependenciesBundle env ?cfg ?p1 = (None, p1\<lparr>files := ?fs\<rparr>)"
      by (simp add: rollupWrite_snd)
    from cdb assms(1) have sc: "script env =
      snd (startWatchMode env ?cfg
             (verbose ?cfg (CHR 0x0A # ''Starting Watch Mode'')
                (say (console_timeEnd ''Created Dependencies Bundle'') (p1\<lparr>files := ?fs\<rparr>))))"
      by (simp add: script_def developmentBuild_def Let_def startWatchMode_def)
    show thesis
    proof (rule that [of es])
      show "map fst es = dependenciesArr env" by (rule resolved(2))
      show "files (script env) = ?fs" by (simp add: sc startWatchMode_def)
      show "watcher (script env) =
           Some (watchInputOptions (projectRoot env) (app_main env) (dependenciesArr env)
                   (parse_args (args env)),
                 watchOutputOptions (projectRoot env) (dependenciesArr env))"
        by (simp add: sc startWatchMode_def)
    qed
  qed
qed

subsection \<open>What the watcher does and leaves unchanged\<close>

lemma rebuild_frame [simp]:
  "watcher (rebuild src outcome p) = watcher p"
  "exit_status (rebuild src outcome p) = exit_status p"
  by (simp_all add: rebuild_def Let_def case_prod_beta split: option.splits sum.splits)

lemma builds_frame [simp]:
  "watcher (builds src n outcomes p) = watcher p"
  "exit_status (builds src n outcomes p) = exit_status p"
  by (induction outcomes arbitrary: n p) simp_all

lemma watch_frame [simp]:
  "watcher (watch src outcomes p) = watcher p" "exit_status (watch src outcomes p) = exit_status p"
  by (simp_all add: watch_def)

lemma rebuild_idle: "watcher p = None \<Longrightarrow> rebuild src outcome p = p"
  by (simp add: rebuild_def)

lemma builds_idle: "watcher p = None \<Longrightarrow> builds src n outcomes p = p"
  by (induction outcomes arbitrary: n) (simp_all add: rebuild_idle)

lemma watch_idle: "watcher p = None \<Longrightarrow> watch src outcomes p = p"
  by (simp add: watch_def builds_idle)

lemma watch_exited: "exit_status p = Some n \<Longrightarrow> watch src outcomes p = p"
  by (simp add: watch_def)

lemma files_rebuild:
  "watcher p = Some (inp, out) \<Longrightarrow>
   files (rebuild src outcome p) =
     (case outcome of Inl e \<Rightarrow> files p | Inr d \<Rightarrow> writeFiles (outputFiles inp out src) (files p))"
  by (simp add: rebuild_def Let_def case_prod_beta rollupWrite_snd split: sum.splits)

lemma rebuild_keeps_files:
  "watcher p = Some (inp, out) \<Longrightarrow>
   fst ` set (files p) \<subseteq> fst ` set (files (rebuild src outcome p))"
  by (auto simp add: files_rebuild split: sum.splits)

lemma builds_keeps_files:
  "watcher p = Some (inp, out) \<Longrightarrow>
   fst ` set (files p) \<subseteq> fst ` set (files (builds src n outcomes p))"
proof (induction outcomes arbitrary: n p)
  case Nil
  show ?case by simp
next
  case (Cons outcome outcomes)
  have "fst ` set (files p) \<subseteq> fst ` set (files (rebuild (src n) outcome p))"
    using Cons.prems by (rule rebuild_keeps_files)
  moreover have "fst ` set (files (rebuild (src n) outcome p))
      \<subseteq> fst ` set (files (builds src (Suc n) outcomes (rebuild (src n) outcome p)))"
    using Cons.prems by (intro Cons.IH) simp
  ultimately show ?case by simp
qed

lemma watch_keeps_files:
  "watcher p = Some (inp, out) \<Longrightarrow>
   fst ` set (files p) \<subseteq> fst ` set (files (watch src outcomes p))"
  by (simp add: watch_def builds_keeps_files)

lemma builds_append:
  "builds src n (outcomes @ [outcome]) p =
     rebuild (src (n + length outcomes)) outcome (builds src n outcomes p)"
  by (induction outcomes arbitrary: n p) simp_all

lemma run_append:
  "exit_status (script env) = None \<Longrightarrow>
   run env (outcomes @ [outcome]) =
     rebuild (watch_source env (length outcomes)) outcome (run env outcomes)"
  by (simp add: run_def watch_def builds_append)

lemma bundle_after_build:
  assumes "exit_status (script env) = None"
    and "watcher (script env) = Some (inp, out)"
  shows "map_of (files (run env (outcomes @ [Inr d]))) f =
           (case map_of (outputFiles inp out (watch_source env (length outcomes))) f of
              Some c \<Rightarrow> Some c
            | None \<Rightarrow> map_of (files (run env outcomes)) f)"
proof -
  have "watcher (run env outcomes) = Some (inp, out)"
    using assms(2) by (simp add: run_def)
  then show ?thesis
    by (simp add: run_append [OF assms(1)] files_rebuild map_of_writeFiles)
qed


subsection \<open>The sample project\<close>

lemma sample_development: "DEV (parse_args (args sample_env))"
  by (simp add: sample_env_def parse_args_def yargs_def aliases_def)

lemma sample_production: "\<not> DEV (parse_args (args sample_production_env))"
  by (simp add: sample_production_env_def parse_args_def yargs_def default_flag_def)

lemma sample_not_exited: "exit_status (script sample_env) = None"
  by code_simp

subsection \<open>Clearing the output directory\<close>

lemma set_concat_map_cong:
  "set xs = set ys \<Longrightarrow> set (concat (map f xs)) = set (concat (map f ys))"
  by simp

lemma files_productionBuild:
  "files (snd (productionBuild env cfg p)) =
     snd (rollupWrite (productionInputOptions (projectRoot env) (app_main env))
            (productionOutputOptions (projectRoot env)) (rollup_result env) (rollup_source env)
            (clearTargets [root (projectRoot env) ''public/build''] (files p)))"
  by (simp add: productionBuild_def Let_def case_prod_beta split: option.splits)

text \<open>
  Claim C7, as the code has it. \<open>productionBuild\<close> and \<open>createDependenciesBundle\<close>
  clear the output directory public/build when they build their plugins, before anything
  else of the pass. After \<open>productionBuild\<close> the files under it are exactly the files
  the pass wrote, and none when the pass failed. After \<open>createDependenciesBundle\<close>
  there is none when it failed, be it on an entry point or in Rollup, and otherwise
  exactly the files of the dependencies, their maps and the further files of the pass.
  A build of the watcher clears nothing: every file there before it is there after it.
\<close>

theorem output_directory_cleared_by_one_shot_passes:
  "filter (under (root (projectRoot env) ''public/build''))
      (map fst (files (snd (productionBuild env cfg p))))
     = (case rollup_result env of
          None \<Rightarrow> map fst (outputFiles (productionInputOptions (projectRoot env) (app_main env))
                            (productionOutputOptions (projectRoot env)) (rollup_source env))
        | Some e \<Rightarrow> [])
   \<and> (fst (createDependenciesBundle env cfg p) = Some e \<longrightarrow>
        filter (under (root (projectRoot env) ''public/build''))
          (map fst (files (snd (createDependenciesBundle env cfg p)))) = [])
   \<and> (fst (createDependenciesBundle env cfg p) = None \<longrightarrow>
        set (filter (under (root (projectRoot env) ''public/build''))
               (map fst (files (snd (createDependenciesBundle env cfg p)))))
          = set (concat (map (\<lambda>n. [root (projectRoot env) ''public/build'' @ ''/dependencies/'' @ n @ ''.js'',
                                     root (projectRoot env) ''public/build'' @ ''/dependencies/'' @ n @ ''.js.map''])
                           (dependenciesArr env)))
            \<union> set (map (\<lambda>c. root (projectRoot env) ''public/build'' @ ''/dependencies/'' @ c)
                       (src_further (rollup_source env))))
   \<and> (DEV (parse_args (args env)) \<and> exit_status (script env) = None \<longrightarrow>
        fst ` set (files (run env outcomes))
          \<subseteq> fst ` set (files (run env (outcomes @ [outcome]))))"
proof -
  let ?B = "root (projectRoot env) ''public/build''"
  have prod: "filter (under ?B) (map fst (files (snd (productionBuild env cfg p))))
     = (case rollup_result env of
          None \<Rightarrow> map fst (outputFiles (productionInputOptions (projectRoot env) (app_main env))
                            (productionOutputOptions (projectRoot env)) (rollup_source env))
        | Some e \<Rightarrow> [])"
    by (simp add: files_productionBuild rollupWrite_snd paths_under_writeFiles
          under_outputFiles_production split: option.splits)
  have failed: "filter (under ?B) (map fst (files (snd (createDependenciesBundle env cfg p)))) = []"
    if "fst (createDependenciesBundle env cfg p) = Some e"
  proof (cases rule: createDependenciesBundle_cases [of env cfg p])
    case (unresolved e' p1)
    then show ?thesis by simp
  next
    case (resolved es p1)
    with that have "rollup_result env = Some e" by simp
    with resolved show ?thesis by (simp add: rollupWrite_snd)
  qed
  have written: "set (filter (under ?B) (map fst (files (snd (createDependenciesBundle env cfg p)))))
          = set (concat (map (\<lambda>n. [?B @ ''/dependencies/'' @ n @ ''.js'',
                                     ?B @ ''/dependencies/'' @ n @ ''.js.map''])
                           (dependenciesArr env)))
            \<union> set (map (\<lambda>c. ?B @ ''/dependencies/'' @ c) (src_further (rollup_source env)))"
    if "fst (createDependenciesBundle env cfg p) = None"
  proof (cases rule: createDependenciesBundle_cases [of env cfg p])
    case (unresolved e' p1)
    with that show ?thesis by simp
  next
    case (resolved es p1)
    with that have ok: "rollup_result env = None" by simp
    have names: "set (map fst (fromEntries es)) = set (dependenciesArr env)"
      using keys_fromEntries [of es] resolved(2) by simp
    have "filter (under ?B) (map fst (files (snd (createDependenciesBundle env cfg p))))
        = map fst (outputFiles (dependenciesInputOptions (projectRoot env) es)
                     (dependenciesOutputOptions (projectRoot env)) (rollup_source env))"
      using resolved ok
      by (simp add: rollupWrite_snd paths_under_writeFiles under_outputFiles_dependencies)
    then show ?thesis
      unfolding paths_outputFiles_dependencies
      using set_concat_map_cong [OF names,
          of "\<lambda>n. [?B @ ''/dependencies/'' @ n @ ''.js'', ?B @ ''/dependencies/'' @ n @ ''.js.map'']"]
      by simp
  qed
  have kept: "fst ` set (files (run env outcomes)) \<subseteq> fst ` set (files (run env (outcomes @ [outcome])))"
    if h: "DEV (parse_args (args env))" "exit_status (script env) = None"
  proof -
    from script_development_success [OF h] obtain inp out
      where "watcher (script env) = Some (inp, out)" by metis
    then have "watcher (run env outcomes) = Some (inp, out)"
      by (simp add: run_def)
    then show ?thesis
      unfolding run_append [OF h(2)] by (rule rebuild_keeps_files)
  qed
  from prod failed written kept show ?thesis by blast
qed


text \<open>
  The sample project, over an output directory that holds stale.js: the production build
  leaves the bundle, its map and the chunk with its map; a pre-bundle whose first entry
  point does not resolve leaves nothing; the pre-bundle leaves the four files of lib-a
  and lib-b; a failing rebuild of the watcher keeps every file.
\<close>

theorem output_directory_cleared_by_one_shot_passes_witness:
  "filter (under ''/app/public/build'')
      (map fst (files (snd (productionBuild sample_production_env (parse_args [])
         \<lparr>console = [], files = files0 sample_production_env, exit_status = None,
          watcher = None\<rparr>))))
     = [''/app/public/build/bundle.js'', ''/app/public/build/bundle.js.map'',
        ''/app/public/build/other-4f2a91.js'', ''/app/public/build/other-4f2a91.js.map'']
   \<and> filter (under ''/app/public/build'')
      (map fst (files (snd (createDependenciesBundle
         (sample_env\<lparr>require := (\<lambda>p. Inl (ModuleNotFound p))\<rparr>) (parse_args [(''dev'', True)])
         \<lparr>console = [], files = files0 sample_env, exit_status = None, watcher = None\<rparr>))))
     = []
   \<and> set (filter (under ''/app/public/build'')
      (map fst (files (snd (createDependenciesBundle sample_env (parse_args [(''dev'', True)])
         \<lparr>console = [], files = files0 sample_env, exit_status = None, watcher = None\<rparr>)))))
     = {''/app/public/build/dependencies/lib-a.js'', ''/app/public/build/dependencies/lib-a.js.map'',
        ''/app/public/build/dependencies/lib-b.js'', ''/app/public/build/dependencies/lib-b.js.map''}
   \<and> fst ` set (files (run sample_env [Inr 12]))
        \<subseteq> fst ` set (files (run sample_env ([Inr 12] @ [Inl (BuildError ''Unexpected token'')])))"
proof -
  have a: "fst (createDependenciesBundle
         (sample_env\<lparr>require := (\<lambda>p. Inl (ModuleNotFound p))\<rparr>) (parse_args [(''dev'', True)])
         \<lparr>console = [], files = files0 sample_env, exit_status = None, watcher = None\<rparr>)
      = Some (ModuleNotFound ''lib-a/package.json'')"
    by code_simp
  have b: "fst (createDependenciesBundle sample_env (parse_args [(''dev'', True)])
         \<lparr>console = [], files = files0 sample_env, exit_status = None, watcher = None\<rparr>) = None"
    by code_simp
  have c: "rollup_result sample_production_env = None"
    "src_further (rollup_source sample_production_env)
       = [''other-4f2a91.js'', ''other-4f2a91.js.map'']"
    "projectRoot sample_production_env = ''/app''"
    by (simp_all add: sample_production_env_def sample_env_def)
  have d: "projectRoot sample_env = ''/app''" "dependenciesArr sample_env = [''lib-a'', ''lib-b'']"
    "src_further (rollup_source sample_env) = []"
    by (simp_all add: sample_env_def)
  show ?thesis
    using output_directory_cleared_by_one_shot_passes [where env = sample_production_env
        and cfg = "parse_args []"
        and p = "\<lparr>console = [], files = files0 sample_production_env, exit_status = None,
          watcher = None\<rparr>"]
      output_directory_cleared_by_one_shot_passes [where
        env = "sample_env\<lparr>require := (\<lambda>p. Inl (ModuleNotFound p))\<rparr>"
        and cfg = "parse_args [(''dev'', True)]"
        and p = "\<lparr>console = [], files = files0 sample_env, exit_status = None, watcher = None\<rparr>"
        and e = "ModuleNotFound ''lib-a/package.json''"] a
      output_directory_cleared_by_one_shot_passes [where env = sample_env
        and cfg = "parse_args [(''dev'', True)]"
        and p = "\<lparr>console = [], files = files0 sample_env, exit_status = None, watcher = None\<rparr>"
        and outcomes = "[Inr 12]" and outcome = "Inl (BuildError ''Unexpected token'')"] b
      sample_development sample_not_exited
    by (simp add: c d paths_outputFiles_production root_def insert_commute)
qed

text \<open>
  Claim C7 as stated has the output directory cleared before each rebuild of the watcher
  too. In the sample project the bundle of the first build is still there after a second
  build that fails, with the same files as before it, and after a third.
\<close>

theorem watch_rebuild_keeps_output_counterexample:
  "''/app/public/build/bundle.js'' \<in> fst ` set (files (run sample_env [Inr 12]))
   \<and> files (run sample_env [Inr 12, Inl (BuildError ''Unexpected token'')])
       = files (run sample_env [Inr 12])
   \<and> ''/app/public/build/bundle.js''
       \<in> fst ` set (files (run sample_env [Inr 12, Inl (BuildError ''Unexpected token''),
                                            Inl (BuildError ''Unexpected token'')]))"
  by code_simp


subsection \<open>Development builds\<close>

text \<open>
  Claim C3. In a development invocation that does not exit, each declared dependency
  \<open>k\<close> has its file dependencies/k.js and the source map dependencies/k.js.map under
  the output directory public/build, written by the pre-bundle and still there after any
  number of builds of the watcher. The watcher runs with all declared dependencies as
  \<open>external\<close> and with \<open>paths\<close> taking \<open>k\<close> to ./dependencies/k.js, and every build of
  it that succeeds writes the bundle public/build/bundle.js in which the imports of
  declared dependencies are left as imports of ./dependencies/<name>.js and only the
  other imported modules are bundled in.
\<close>

theorem development_prebundle_and_externals:
  assumes "DEV (parse_args (args env))" and "exit_status (script env) = None"
    and "k \<in> set (dependenciesArr env)"
  shows "root (projectRoot env) ''public/build'' @ ''/dependencies/'' @ k @ ''.js''
           \<in> fst ` set (files (run env outcomes))
       \<and> root (projectRoot env) ''public/build'' @ ''/dependencies/'' @ k @ ''.js.map''
           \<in> fst ` set (files (run env outcomes))
       \<and> (\<exists>inp out. watcher (run env outcomes) = Some (inp, out)
             \<and> external inp = dependenciesArr env
             \<and> map_of (paths out) k = Some (''./dependencies/'' @ k @ ''.js''))
       \<and> map_of (files (run env (outcomes @ [Inr d])))
            (root (projectRoot env) ''public/build'' @ ''/bundle.js'')
           = Some (Bundle
               (filter (\<lambda>i. i \<notin> set (dependenciesArr env))
                  (src_imports (watch_source env (length outcomes))
                     (stripExt (basename (sourceEntryPoint (projectRoot env) (app_main env))))))
               (map (\<lambda>i. ''./dependencies/'' @ i @ ''.js'')
                  (filter (\<lambda>i. i \<in> set (dependenciesArr env))
                     (src_imports (watch_source env (length outcomes))
                        (stripExt (basename (sourceEntryPoint (projectRoot env) (app_main env)))))))
               (src_tokens (watch_source env (length outcomes))
                  (stripExt (basename (sourceEntryPoint (projectRoot env) (app_main env))))))"
proof -
  let ?B = "root (projectRoot env) ''public/build''"
  from script_development_success [OF assms(1,2)] obtain es where
    es: "map fst es = dependenciesArr env"
    and fs: "files (script env) =
           writeFiles (outputFiles (dependenciesInputOptions (projectRoot env) es)
                         (dependenciesOutputOptions (projectRoot env)) (rollup_source env))
             (clearTargets [?B] (files0 env))"
    and w: "watcher (script env) =
           Some (watchInputOptions (projectRoot env) (app_main env) (dependenciesArr env)
                   (parse_args (args env)),
                 watchOutputOptions (projectRoot env) (dependenciesArr env))"
    by blast
  have "k \<in> set (map fst (fromEntries es))"
    using keys_fromEntries [of es] es assms(3) by simp
  then have "?B @ ''/dependencies/'' @ k @ ''.js''
        \<in> set (map fst (outputFiles (dependenciesInputOptions (projectRoot env) es)
                           (dependenciesOutputOptions (projectRoot env)) (rollup_source env)))"
    and "?B @ ''/dependencies/'' @ k @ ''.js.map''
        \<in> set (map fst (outputFiles (dependenciesInputOptions (projectRoot env) es)
                           (dependenciesOutputOptions (projectRoot env)) (rollup_source env)))"
    unfolding paths_outputFiles_dependencies by auto
  then have "?B @ ''/dependencies/'' @ k @ ''.js'' \<in> fst ` set (files (script env))"
    and "?B @ ''/dependencies/'' @ k @ ''.js.map'' \<in> fst ` set (files (script env))"
    by (simp_all add: fs)
  moreover have "fst ` set (files (script env)) \<subseteq> fst ` set (files (run env outcomes))"
    unfolding run_def using w by (rule watch_keeps_files)
  ultimately have written: "?B @ ''/dependencies/'' @ k @ ''.js''
           \<in> fst ` set (files (run env outcomes))
       \<and> ?B @ ''/dependencies/'' @ k @ ''.js.map'' \<in> fst ` set (files (run env outcomes))"
    by blast
  have "watcher (run env outcomes) =
      Some (watchInputOptions (projectRoot env) (app_main env) (dependenciesArr env)
              (parse_args (args env)),
            watchOutputOptions (projectRoot env) (dependenciesArr env))"
    using w by (simp add: run_def)
  moreover have "external (watchInputOptions (projectRoot env) (app_main env)
      (dependenciesArr env) (parse_args (args env))) = dependenciesArr env"
    by (simp add: watchInputOptions_def)
  moreover have "map_of (paths (watchOutputOptions (projectRoot env) (dependenciesArr env))) k
      = Some (''./dependencies/'' @ k @ ''.js'')"
    using assms(3) by (simp add: watchOutputOptions_def map_of_dependencyPaths)
  ultimately have options: "\<exists>inp out. watcher (run env outcomes) = Some (inp, out)
             \<and> external inp = dependenciesArr env
             \<and> map_of (paths out) k = Some (''./dependencies/'' @ k @ ''.js'')"
    by blast
  have built: "map_of (files (run env (outcomes @ [Inr d]))) (?B @ ''/bundle.js'')
      = Some (bundleOf (watchInputOptions (projectRoot env) (app_main env) (dependenciesArr env)
                  (parse_args (args env)))
                (watchOutputOptions (projectRoot env) (dependenciesArr env))
                (watch_source env (length outcomes))
                (stripExt (basename (sourceEntryPoint (projectRoot env) (app_main env)))))"
    by (simp add: bundle_after_build [OF assms(2) w] map_of_outputFiles_watch)
  from written options built show ?thesis
    by (simp add: bundleOf_watch)
qed

text \<open>
  The sample project after two builds of the watcher, the second one failing, and after a
  third: the files of lib-a and lib-b are in place, both are external, and the bundle
  imports them from ./dependencies/lib-a.js and ./dependencies/lib-b.js while its own
  module ./util is bundled in.
\<close>

theorem development_prebundle_and_externals_witness:
  "''/app/public/build/dependencies/lib-a.js''
     \<in> fst ` set (files (run sample_env [Inr 12, Inl (BuildError ''Unexpected token'')]))
   \<and> ''/app/public/build/dependencies/lib-a.js.map''
     \<in> fst ` set (files (run sample_env [Inr 12, Inl (BuildError ''Unexpected token'')]))
   \<and> ''/app/public/build/dependencies/lib-b.js''
     \<in> fst ` set (files (run sample_env [Inr 12, Inl (BuildError ''Unexpected token'')]))
   \<and> (\<exists>inp out.
        watcher (run sample_env [Inr 12, Inl (BuildError ''Unexpected token'')])
          = Some (inp, out)
        \<and> external inp = [''lib-a'', ''lib-b'']
        \<and> map_of (paths out) ''lib-a'' = Some ''./dependencies/lib-a.js'')
   \<and> map_of (files (run sample_env ([Inr 12, Inl (BuildError ''Unexpected token'')] @ [Inr 7])))
        ''/app/public/build/bundle.js''
       = Some (Bundle [''./util''] [''./dependencies/lib-a.js'', ''./dependencies/lib-b.js'']
                 [''if'', ''process.env.NODE_ENV''])"
  using development_prebundle_and_externals [OF sample_development sample_not_exited,
          of "''lib-a''" "[Inr 12, Inl (BuildError ''Unexpected token'')]" 7]
        development_prebundle_and_externals [OF sample_development sample_not_exited,
          of "''lib-b''" "[Inr 12, Inl (BuildError ''Unexpected token'')]" 7]
  by (simp add: sample_env_def root_def)

subsection \<open>Production builds\<close>

lemma not_under_dependencies [simp]:
  "\<not> under (d @ ''/dependencies'') (d @ ''/bundle.js'')"
  "\<not> under (d @ ''/dependencies'') (d @ ''/bundle.js.map'')"
  by (simp_all add: under_def)

text \<open>
  Claim C6, as the code has it. In a production invocation the files under the output
  directory public/build at the end are, when the build succeeds and whatever was there
  before, bundle.js, bundle.js.map and the further files Rollup emits for the modules it
  bundles, so exactly the two when there are none; and no file when the build fails. No
  file is under public/build/dependencies as long as no further file is named with a
  slash. The bundle has every imported module bundled in and no import left, and has
  process.env.NODE_ENV replaced by the literal "production". No watcher is started.
\<close>

theorem production_output_exact:
  assumes "\<not> DEV (parse_args (args env))"
  shows "filter (under (root (projectRoot env) ''public/build''))
           (map fst (files (run env outcomes)))
           = (case rollup_result env of
                None \<Rightarrow> [root (projectRoot env) ''public/build'' @ ''/bundle.js'',
                         root (projectRoot env) ''public/build'' @ ''/bundle.js.map'']
                        @ map (\<lambda>c. root (projectRoot env) ''public/build'' @ ''/'' @ c)
                            (src_further (rollup_source env))
              | Some e \<Rightarrow> [])
       \<and> ((\<forall>c \<in> set (src_further (rollup_source env)). CHR ''/'' \<notin> set c) \<longrightarrow>
            filter (under (root (projectRoot env) ''public/build/dependencies''))
              (map fst (files (run env outcomes))) = [])
       \<and> (rollup_result env = None \<longrightarrow>
            map_of (files (run env outcomes)) (root (projectRoot env) ''public/build'' @ ''/bundle.js'')
              = Some (Bundle
                  (src_imports (rollup_source env)
                     (stripExt (basename (sourceEntryPoint (projectRoot env) (app_main env)))))
                  []
                  (map (\<lambda>t. if t = ''process.env.NODE_ENV''
                            then [CHR 0x22] @ ''production'' @ [CHR 0x22] else t)
                     (src_tokens (rollup_source env)
                        (stripExt (basename (sourceEntryPoint (projectRoot env) (app_main env))))))))
       \<and> watcher (run env outcomes) = None"
proof -
  let ?B = "root (projectRoot env) ''public/build''"
  let ?cleared = "clearTargets [?B] (files0 env)"
  let ?new = "outputFiles (productionInputOptions (projectRoot env) (app_main env))
                (productionOutputOptions (projectRoot env)) (rollup_source env)"
  have run: "run env outcomes = script env"
    by (simp add: run_def watch_idle script_production(2) [OF assms])
  have fs: "files (run env outcomes)
      = (case rollup_result env of None \<Rightarrow> writeFiles ?new ?cleared | Some e \<Rightarrow> ?cleared)"
    by (simp add: run script_production(1) [OF assms] rollupWrite_snd)
  have sub: "root (projectRoot env) ''public/build/dependencies'' = ?B @ ''/dependencies''"
    by (simp add: root_def)
  have a: "filter (under ?B) (map fst (files (run env outcomes)))
           = (case rollup_result env of
                None \<Rightarrow> [?B @ ''/bundle.js'', ?B @ ''/bundle.js.map'']
                        @ map (\<lambda>c. ?B @ ''/'' @ c) (src_further (rollup_source env))
              | Some e \<Rightarrow> [])"
    using under_outputFiles_production [of "projectRoot env" "app_main env" "rollup_source env"]
    by (simp add: fs paths_under_writeFiles paths_outputFiles_production split: option.splits)
  have b: "filter (under (?B @ ''/dependencies'')) (map fst (files (run env outcomes))) = []"
    if "\<forall>c \<in> set (src_further (rollup_source env)). CHR ''/'' \<notin> set c"
  proof -
    have "filter (under (?B @ ''/dependencies'')) (map fst ?new) = []"
      using that
      by (auto simp add: paths_outputFiles_production filter_empty_conv
            dest: under_dependencies_slash)
    then show ?thesis
      by (simp add: fs paths_under_writeFiles split: option.splits)
  qed
  have c: "map_of (files (run env outcomes)) (?B @ ''/bundle.js'')
      = Some (bundleOf (productionInputOptions (projectRoot env) (app_main env))
                (productionOutputOptions (projectRoot env)) (rollup_source env)
                (stripExt (basename (sourceEntryPoint (projectRoot env) (app_main env)))))"
    if "rollup_result env = None"
    using that by (simp add: fs map_of_writeFiles map_of_outputFiles_production)
  have d: "watcher (run env outcomes) = None"
    by (simp add: run script_production(2) [OF assms])
  from a b c d show ?thesis
    unfolding sub by (simp add: bundleOf_production replaceToken_def)
qed


text \<open>
  The sample project built in production mode: the bundle, its map, the chunk and its
  map, nothing under dependencies, lib-a and lib-b bundled in; with a failing build, an
  empty output directory.
\<close>

theorem production_output_exact_witness:
  "filter (under ''/app/public/build'') (map fst (files (run sample_production_env [Inr 3])))
     = [''/app/public/build/bundle.js'', ''/app/public/build/bundle.js.map'',
        ''/app/public/build/other-4f2a91.js'', ''/app/public/build/other-4f2a91.js.map'']
   \<and> filter (under ''/app/public/build/dependencies'')
        (map fst (files (run sample_production_env [Inr 3]))) = []
   \<and> map_of (files (run sample_production_env [Inr 3])) ''/app/public/build/bundle.js''
       = Some (Bundle [''lib-a'', ''./util'', ''lib-b''] []
                 [''if'', [CHR 0x22] @ ''production'' @ [CHR 0x22]])
   \<and> filter (under ''/app/public/build'')
        (map fst (files (run (sample_production_env\<lparr>rollup_result := Some (BuildError ''boom'')\<rparr>)
                          []))) = []"
proof -
  have a: "\<not> DEV (parse_args (args (sample_production_env\<lparr>rollup_result := Some (BuildError ''boom'')\<rparr>)))"
    by (simp add: sample_production_env_def parse_args_def yargs_def default_flag_def)
  have b: "rollup_result sample_production_env = None"
    "src_further (rollup_source sample_production_env)
       = [''other-4f2a91.js'', ''other-4f2a91.js.map'']"
    "projectRoot sample_production_env = ''/app''"
    "app_main sample_production_env = ''src/main.ts''"
    "src_imports (rollup_source sample_production_env) = (\<lambda>n. [''lib-a'', ''./util'', ''lib-b''])"
    "src_tokens (rollup_source sample_production_env) = (\<lambda>n. [''if'', ''process.env.NODE_ENV''])"
    by (simp_all add: sample_production_env_def sample_env_def)
  show ?thesis
    using production_output_exact [OF sample_production, of "[Inr 3]"]
      production_output_exact [OF a, of "[]"]
    by (simp add: b root_def)
qed

text \<open>
  Claim C6 as stated has exactly bundle.js and bundle.js.map under the output root. The
  script gives Rollup a directory to write to, and for an application that imports a
  module dynamically the successful production build also leaves the chunk and its map.
\<close>

theorem production_further_chunk_counterexample:
  "\<not> DEV (parse_args (args sample_production_env))
   \<and> exit_status (run sample_production_env []) = None
   \<and> filter (under ''/app/public/build'') (map fst (files (run sample_production_env [])))
       = [''/app/public/build/bundle.js'', ''/app/public/build/bundle.js.map'',
          ''/app/public/build/other-4f2a91.js'', ''/app/public/build/other-4f2a91.js.map'']
   \<and> filter (under ''/app/public/build'') (map fst (files (run sample_production_env [])))
       \<noteq> [''/app/public/build/bundle.js'', ''/app/public/build/bundle.js.map'']"
  by code_simp

subsection \<open>Errors\<close>

text \<open>
  Claim C8 has a compile error in watch mode logged while the process stays alive. The
  handler of the watcher's events prints on BUNDLE_START and BUNDLE_END only: an ERROR
  event leaves the process as it is. In the sample project a first build that fails with
  a compile error prints "Found Changes" and no error; the process does not exit.
\<close>

theorem watch_error_not_printed:
  "onEvent \<lparr>code = ERROR, duration = d, failure = Some e\<rparr> p = p
   \<and> console (run sample_env [Inl (BuildError ''Unexpected token'')])
       = [console_log [CHR 0x1B, CHR ''c''], console_timeEnd ''Created Dependencies Bundle'',
          console_log (CHR 0x0A # ''Found Changes'')]
   \<and> exit_status (run sample_env [Inl (BuildError ''Unexpected token'')]) = None"
proof -
  have a: "onEvent \<lparr>code = ERROR, duration = d, failure = Some e\<rparr> p = p"
    by (simp add: onEvent_def)
  have b: "console (run sample_env [Inl (BuildError ''Unexpected token'')])
       = [console_log [CHR 0x1B, CHR ''c''], console_timeEnd ''Created Dependencies Bundle'',
          console_log (CHR 0x0A # ''Found Changes'')]"
    by code_simp
  have c: "exit_status (run sample_env [Inl (BuildError ''Unexpected token'')]) = None"
    by code_simp
  from a b c show ?thesis by simp
qed

text \<open>
  Claim C9. When the production build fails, or when the pre-bundle of a development
  invocation fails (an entry point that does not resolve, or a failing Rollup pass; the
  result of \<open>createDependenciesBundle\<close> does not depend on the process it starts in),
  the script prints the error as its last line and exits with status 1. After a failed
  pre-bundle no watcher is started, and no build of the watcher takes place.
\<close>

theorem build_failure_exits:
  "(\<not> DEV (parse_args (args env)) \<and> rollup_result env = Some e \<longrightarrow>
      exit_status (run env outcomes) = Some 1
      \<and> last (console (run env outcomes)) = console_error e
      \<and> run env outcomes = script env)
   \<and> (DEV (parse_args (args env))
        \<and> fst (createDependenciesBundle env (parse_args (args env)) p) = Some e \<longrightarrow>
      exit_status (run env outcomes) = Some 1
      \<and> last (console (run env outcomes)) = console_error e
      \<and> watcher (run env outcomes) = None
      \<and> run env outcomes = script env)"
proof -
  have prod: "exit_status (run env outcomes) = Some 1
      \<and> last (console (run env outcomes)) = console_error e
      \<and> run env outcomes = script env"
    if h: "\<not> DEV (parse_args (args env))" "rollup_result env = Some e"
  proof -
    have "exit_status (script env) = Some 1"
      using script_production(3) [OF h(1)] h(2) by simp
    then have "run env outcomes = script env"
      by (simp add: run_def watch_exited)
    then show ?thesis
      using script_production(3,4) [OF h(1)] h(2) by simp
  qed
  have dev: "exit_status (run env outcomes) = Some 1
      \<and> last (console (run env outcomes)) = console_error e
      \<and> watcher (run env outcomes) = None
      \<and> run env outcomes = script env"
    if h: "DEV (parse_args (args env))"
      "fst (createDependenciesBundle env (parse_args (args env)) p) = Some e"
  proof -
    note f = script_development_failure [OF h]
    from f(1) have "run env outcomes = script env"
      by (simp add: run_def watch_exited)
    with f show ?thesis by simp
  qed
  from prod dev show ?thesis by blast
qed

text \<open>
  The sample project with a failing Rollup pass, in production and in development mode.
\<close>

theorem build_failure_exits_witness:
  "exit_status (run (sample_env\<lparr>args := [], rollup_result := Some (BuildError ''boom'')\<rparr>) [Inr 3])
     = Some 1
   \<and> last (console (run (sample_env\<lparr>args := [], rollup_result := Some (BuildError ''boom'')\<rparr>)
                         [Inr 3]))
     = console_error (BuildError ''boom'')
   \<and> exit_status (run (sample_env\<lparr>rollup_result := Some (BuildError ''boom'')\<rparr>) [Inr 3]) = Some 1
   \<and> last (console (run (sample_env\<lparr>rollup_result := Some (BuildError ''boom'')\<rparr>) [Inr 3]))
     = console_error (BuildError ''boom'')
   \<and> watcher (run (sample_env\<lparr>rollup_result := Some (BuildError ''boom'')\<rparr>) [Inr 3]) = None"
proof -
  have a: "\<not> DEV (parse_args (args (sample_env\<lparr>args := [], rollup_result := Some (BuildError ''boom'')\<rparr>)))"
    by (simp add: parse_args_def yargs_def default_flag_def)
  have b: "rollup_result (sample_env\<lparr>args := [], rollup_result := Some (BuildError ''boom'')\<rparr>)
      = Some (BuildError ''boom'')"
    by simp
  have c: "DEV (parse_args (args (sample_env\<lparr>rollup_result := Some (BuildError ''boom'')\<rparr>)))"
    by (simp add: sample_env_def parse_args_def yargs_def aliases_def)
  have d: "fst (createDependenciesBundle (sample_env\<lparr>rollup_result := Some (BuildError ''boom'')\<rparr>)
      (parse_args (args (sample_env\<lparr>rollup_result := Some (BuildError ''boom'')\<rparr>)))
      \<lparr>console = [], files = [], exit_status = None, watcher = None\<rparr>) = Some (BuildError ''boom'')"
    by code_simp
  show ?thesis
    using build_failure_exits [where env = "sample_env\<lparr>args := [], rollup_result := Some (BuildError ''boom'')\<rparr>"
        and e = "BuildError ''boom''" and outcomes = "[Inr 3]"] a b
      build_failure_exits [where env = "sample_env\<lparr>rollup_result := Some (BuildError ''boom'')\<rparr>"
        and p = "\<lparr>console = [], files = [], exit_status = None, watcher = None\<rparr>"
        and e = "BuildError ''boom''" and outcomes = "[Inr 3]"] c d
    by blast
qed


subsection \<open>The environment marker\<close>

text \<open>
  Claim C10. In a development invocation that does not exit, the file the pre-bundle
  wrote for each dependency has every token process.env.NODE_ENV of the dependency's code
  replaced by the literal "development", while the bundle a build of the watcher writes
  has the tokens of the application's code as they are, process.env.NODE_ENV among them.
  The watcher runs without any replace plugin: the list of plugins of the pre-bundle
  holds the one for process.env.NODE_ENV, the list of the watcher holds none.
\<close>

theorem environment_marker_only_in_prebundle:
  "(DEV (parse_args (args env)) \<and> exit_status (script env) = None
      \<and> k \<in> set (dependenciesArr env) \<longrightarrow>
      map_of (files (script env))
         (root (projectRoot env) ''public/build'' @ ''/dependencies/'' @ k @ ''.js'')
       = Some (Bundle (src_imports (rollup_source env) k) []
                (map (\<lambda>t. if t = ''process.env.NODE_ENV''
                          then [CHR 0x22] @ ''development'' @ [CHR 0x22] else t)
                   (src_tokens (rollup_source env) k))))
   \<and> (DEV (parse_args (args env)) \<and> exit_status (script env) = None \<longrightarrow>
      (\<exists>inlined targets.
         map_of (files (run env (outcomes @ [Inr d])))
            (root (projectRoot env) ''public/build'' @ ''/bundle.js'')
          = Some (Bundle inlined targets
                   (src_tokens (watch_source env (length outcomes))
                      (stripExt (basename (sourceEntryPoint (projectRoot env) (app_main env)))))))
      \<and> (\<exists>inp out. watcher (run env outcomes) = Some (inp, out)
            \<and> pluginReplace vs \<notin> set (plugins inp)))
   \<and> pluginReplace [(''process.env.NODE_ENV'', [CHR 0x22] @ ''development'' @ [CHR 0x22])]
        \<in> set (dependenciesPlugins pr)
   \<and> pluginReplace vs \<notin> set (watchPlugins pr cfg)"
proof -
  let ?B = "root (projectRoot env) ''public/build''"
  have pre: "map_of (files (script env)) (?B @ ''/dependencies/'' @ k @ ''.js'')
       = Some (Bundle (src_imports (rollup_source env) k) []
                (map (\<lambda>t. if t = ''process.env.NODE_ENV''
                          then [CHR 0x22] @ ''development'' @ [CHR 0x22] else t)
                   (src_tokens (rollup_source env) k)))"
    if h: "DEV (parse_args (args env))" "exit_status (script env) = None"
      "k \<in> set (dependenciesArr env)"
  proof -
    from script_development_success [OF h(1,2)] obtain es where
      es: "map fst es = dependenciesArr env"
      and fs: "files (script env) =
           writeFiles (outputFiles (dependenciesInputOptions (projectRoot env) es)
                         (dependenciesOutputOptions (projectRoot env)) (rollup_source env))
             (clearTargets [?B] (files0 env))"
      by blast
    have "k \<in> set (map fst (fromEntries es))"
      using keys_fromEntries [of es] es h(3) by simp
    from map_of_outputFiles_dependencies [OF this] show ?thesis
      by (simp add: fs map_of_writeFiles bundleOf_dependencies replaceToken_def)
  qed
  have none: "pluginReplace vs \<notin> set (watchPlugins pr cfg)" for pr cfg
    by (simp add: watchPlugins_def)
  have app: "(\<exists>inlined targets.
         map_of (files (run env (outcomes @ [Inr d]))) (?B @ ''/bundle.js'')
          = Some (Bundle inlined targets
                   (src_tokens (watch_source env (length outcomes))
                      (stripExt (basename (sourceEntryPoint (projectRoot env) (app_main env)))))))
      \<and> (\<exists>inp out. watcher (run env outcomes) = Some (inp, out)
            \<and> pluginReplace vs \<notin> set (plugins inp))"
    if h: "DEV (parse_args (args env))" "exit_status (script env) = None"
  proof -
    from script_development_success [OF h] have w: "watcher (script env) =
           Some (watchInputOptions (projectRoot env) (app_main env) (dependenciesArr env)
                   (parse_args (args env)),
                 watchOutputOptions (projectRoot env) (dependenciesArr env))"
      by blast
    have "map_of (files (run env (outcomes @ [Inr d]))) (?B @ ''/bundle.js'')
      = Some (bundleOf (watchInputOptions (projectRoot env) (app_main env) (dependenciesArr env)
                  (parse_args (args env)))
                (watchOutputOptions (projectRoot env) (dependenciesArr env))
                (watch_source env (length outcomes))
                (stripExt (basename (sourceEntryPoint (projectRoot env) (app_main env)))))"
      by (simp add: bundle_after_build [OF h(2) w] map_of_outputFiles_watch)
    then have first: "\<exists>inlined targets.
         map_of (files (run env (outcomes @ [Inr d]))) (?B @ ''/bundle.js'')
          = Some (Bundle inlined targets
                   (src_tokens (watch_source env (length outcomes))
                      (stripExt (basename (sourceEntryPoint (projectRoot env) (app_main env))))))"
      by (simp add: bundleOf_watch)
    have second: "\<exists>inp out. watcher (run env outcomes) = Some (inp, out)
            \<and> pluginReplace vs \<notin> set (plugins inp)"
      using w none by (simp add: run_def watchInputOptions_def)
    from first second show ?thesis by blast
  qed
  have listed: "pluginReplace [(''process.env.NODE_ENV'', [CHR 0x22] @ ''development'' @ [CHR 0x22])]
        \<in> set (dependenciesPlugins pr)"
    by (simp add: dependenciesPlugins_def)
  from pre app listed none show ?thesis by blast
qed

text \<open>
  The sample project: lib-a.js with the literal in the place of the marker, the bundle of
  the second build of the watcher with the marker.
\<close>

theorem environment_marker_only_in_prebundle_witness:
  "map_of (files (script sample_env)) ''/app/public/build/dependencies/lib-a.js''
     = Some (Bundle [] [] [''if'', [CHR 0x22] @ ''development'' @ [CHR 0x22]])
   \<and> (\<exists>inlined targets.
        map_of (files (run sample_env ([Inr 12] @ [Inr 7]))) ''/app/public/build/bundle.js''
          = Some (Bundle inlined targets [''if'', ''process.env.NODE_ENV'']))
   \<and> (\<exists>inp out. watcher (run sample_env [Inr 12]) = Some (inp, out)
         \<and> pluginReplace [(''process.env.NODE_ENV'', [CHR 0x22] @ ''development'' @ [CHR 0x22])]
            \<notin> set (plugins inp))"
  using environment_marker_only_in_prebundle [where env = sample_env and k = "''lib-a''"
      and outcomes = "[Inr 12]" and d = 7
      and vs = "[(''process.env.NODE_ENV'', [CHR 0x22] @ ''development'' @ [CHR 0x22])]"]
    sample_development sample_not_exited
  by (simp add: sample_env_def root_def)

end
